theory Spec2Isabelle
  imports Complex_Main "HOL-Library.Word" "HOL-Library.AList"
begin

section \<open>The code-execution service of codejoin-backend\<close>

text \<open>
  A shallow embedding of \<^verbatim>\<open>codeExecution.js\<close> (class \<^verbatim>\<open>CodeExecutionService\<close>, the Joi
  schema and the language table). Modelling decisions:
  \<^item> a JavaScript string is a \<^typ>\<open>string\<close>; a \<^typ>\<open>char\<close> stands for one UTF-16 code unit
    of the Latin-1 range;
  \<^item> a \<^verbatim>\<open>Buffer\<close> is a list of bytes;
  \<^item> \<^verbatim>\<open>Buffer.prototype.toString('utf8')\<close> belongs to the Node runtime, not to the
    repository: the functions that decode take the decoder as the parameter \<open>utf8\<close>;
  \<^item> a JavaScript number is the rational that it denotes; comparisons are exact, and the one
    division that the code performs is rounded to the nearest binary64 number;
  \<^item> a thrown \<^verbatim>\<open>Error\<close> is the left injection of a sum, or the constructor \<open>Throws\<close>
    of an outcome of the container engine, carrying the message.
\<close>

subsection \<open>Strings\<close>

text \<open>\<^verbatim>\<open>String.prototype.trim\<close>: white space and line terminators of the Latin-1 range
  (TAB, LF, VT, FF, CR, SP, NBSP) are removed at both ends.\<close>

definition isWhiteSpace :: "char \<Rightarrow> bool" where
  "isWhiteSpace c = (of_char c \<in> {9, 10, 11, 12, 13, 32, 160 :: nat})"

definition trim :: "string \<Rightarrow> string" where
  "trim s = rev (dropWhile isWhiteSpace (rev (dropWhile isWhiteSpace s)))"

text \<open>The decimal digits of a number, as a template literal \<^verbatim>\<open>${n}\<close> prints an integer.\<close>

fun string_of_nat :: "nat \<Rightarrow> string" where
  "string_of_nat n =
     (if n < 10 then [''0123456789'' ! n]
      else string_of_nat (n div 10) @ [''0123456789'' ! (n mod 10)])"

declare string_of_nat.simps [simp del]

definition string_of_int :: "int \<Rightarrow> string" where
  "string_of_int i = (if i < 0 then CHR ''-'' # string_of_nat (nat (- i)) else string_of_nat (nat i))"

subsection \<open>The output demultiplexer\<close>

type_synonym byte = "8 word"
type_synonym buffer = "byte list"

text \<open>The loop of \<^verbatim>\<open>parseDockerLogs\<close> reads only below \<^verbatim>\<open>offset + 8 <= buffer.length\<close>,
  so the reads are in range and the \<^verbatim>\<open>RangeError\<close> of Node cannot occur.\<close>

definition readUInt8 :: "buffer \<Rightarrow> nat \<Rightarrow> nat" where
  "readUInt8 buffer offset = unat (buffer ! offset)"

definition readUInt32BE :: "buffer \<Rightarrow> nat \<Rightarrow> nat" where
  "readUInt32BE buffer offset =
     unat (buffer ! offset) * 2 ^ 24 + unat (buffer ! (offset + 1)) * 2 ^ 16
     + unat (buffer ! (offset + 2)) * 2 ^ 8 + unat (buffer ! (offset + 3))"

text \<open>\<^verbatim>\<open>buffer.slice(start, end)\<close> for \<open>start \<le> end \<le> length buffer\<close>, the only use made of it.\<close>

definition buffer_slice :: "buffer \<Rightarrow> nat \<Rightarrow> nat \<Rightarrow> buffer" where
  "buffer_slice buffer start finish = take (finish - start) (drop start buffer)"

record container_output =
  stdout :: string
  stderr :: string

text \<open>The \<^verbatim>\<open>while\<close> loop of \<^verbatim>\<open>parseDockerLogs\<close>; the two arrays are passed along and
  \<^verbatim>\<open>push\<close> appends at the end. \<^verbatim>\<open>break\<close> returns the arrays as they are.\<close>

function parse_frames ::
  "(buffer \<Rightarrow> string) \<Rightarrow> buffer \<Rightarrow> nat \<Rightarrow> string list \<Rightarrow> string list \<Rightarrow> string list \<times> string list"
where
  "parse_frames utf8 buffer offset stdout_chunks stderr_chunks =
     (if offset + 8 \<le> length buffer then
        (let streamType = readUInt8 buffer offset;
             frameLength = readUInt32BE buffer (offset + 4);
             frameStart = offset + 8;
             frameEnd = frameStart + frameLength
         in if frameEnd > length buffer then (stdout_chunks, stderr_chunks)
            else
              (let chunk = utf8 (buffer_slice buffer frameStart frameEnd)
               in if streamType = 1 then
                    parse_frames utf8 buffer frameEnd (stdout_chunks @ [chunk]) stderr_chunks
                  else if streamType = 2 then
                    parse_frames utf8 buffer frameEnd stdout_chunks (stderr_chunks @ [chunk])
                  else
                    parse_frames utf8 buffer frameEnd (stdout_chunks @ [chunk]) stderr_chunks))
      else (stdout_chunks, stderr_chunks))"
  by pat_completeness auto
termination
  by (relation "measure (\<lambda>(utf8, buffer, offset, out, err). length buffer - offset)") auto

declare parse_frames.simps [simp del]

definition parseDockerLogs :: "(buffer \<Rightarrow> string) \<Rightarrow> buffer \<Rightarrow> container_output" where
  "parseDockerLogs utf8 buffer =
     (case parse_frames utf8 buffer 0 [] [] of
        (stdout_chunks, stderr_chunks) \<Rightarrow>
          if length stdout_chunks = 0 \<and> length stderr_chunks = 0 then
            \<lparr>stdout = trim (utf8 buffer), stderr = ''''\<rparr>
          else
            \<lparr>stdout = trim (concat stdout_chunks), stderr = trim (concat stderr_chunks)\<rparr>)"

subsection \<open>JavaScript values and objects\<close>

datatype jsval = JUndefined | JNull | JString string | JNumber rat

text \<open>An object is the list of its properties in insertion order. An assignment
  \<^verbatim>\<open>obj.k = v\<close> is \<^const>\<open>AList.update\<close>: it overwrites a property in place and appends a
  new one. Reading a property that is not there gives \<^verbatim>\<open>undefined\<close>.\<close>

type_synonym jsobject = "(string \<times> jsval) list"

definition get_prop :: "jsobject \<Rightarrow> string \<Rightarrow> jsval" where
  "get_prop obj k = (case map_of obj k of None \<Rightarrow> JUndefined | Some v \<Rightarrow> v)"

text \<open>\<^verbatim>\<open>JSON.parse(JSON.stringify(obj))\<close> for an object of strings, numbers and
  \<^verbatim>\<open>null\<close>: a property whose value is \<^verbatim>\<open>undefined\<close> is left out.\<close>

definition JSON_stringify :: "jsobject \<Rightarrow> jsobject" where
  "JSON_stringify obj = filter (\<lambda>(k, v). v \<noteq> JUndefined) obj"

subsection \<open>Language configurations\<close>

text \<open>\<^verbatim>\<open>String.prototype.replace\<close> with a string pattern: the first occurrence only.\<close>

fun replace :: "string \<Rightarrow> string \<Rightarrow> string \<Rightarrow> string" where
  "replace pat rep [] = (if pat = [] then rep else [])"
| "replace pat rep (c # cs) =
     (if take (length pat) (c # cs) = pat then rep @ drop (length pat) (c # cs)
      else c # replace pat rep cs)"

text \<open>\<^verbatim>\<open>code.replace(/'/g, "'\"'\"'")\<close>: every single quote becomes the five characters
  quote, double quote, quote, double quote, quote.\<close>

definition replace_quotes :: "string \<Rightarrow> string" where
  "replace_quotes code =
     concat (map (\<lambda>c. if c = CHR 0x27 then [CHR 0x27, CHR 0x22, CHR 0x27, CHR 0x22, CHR 0x27]
                        else [c]) code)"

record language_config =
  image :: string
  extension :: string
  runCommand :: "string \<Rightarrow> string"
  codeTemplate :: "string \<Rightarrow> string"

definition LANGUAGE_CONFIG :: "string \<rightharpoonup> language_config" where
  "LANGUAGE_CONFIG =
     [''javascript'' \<mapsto>
        \<lparr>image = ''node:18-alpine'', extension = ''.js'',
         runCommand = (\<lambda>filename. ''node '' @ filename),
         codeTemplate = (\<lambda>code. code)\<rparr>,
      ''python'' \<mapsto>
        \<lparr>image = ''python:3.11-alpine'', extension = ''.py'',
         runCommand = (\<lambda>filename. ''python '' @ filename),
         codeTemplate = (\<lambda>code. code)\<rparr>,
      ''java'' \<mapsto>
        \<lparr>image = ''openjdk:17-alpine'', extension = ''.java'',
         runCommand = (\<lambda>filename.
           let className = replace ''.java'' [] filename
           in ''javac '' @ filename @ '' && java '' @ className),
         codeTemplate = (\<lambda>code. code)\<rparr>,
      ''cpp'' \<mapsto>
        \<lparr>image = ''gcc:latest'', extension = ''.cpp'',
         runCommand = (\<lambda>filename.
           let executable = replace ''.cpp'' [] filename
           in ''g++ -o '' @ executable @ '' '' @ filename @ '' && ./'' @ executable),
         codeTemplate = (\<lambda>code. code)\<rparr>,
      ''c'' \<mapsto>
        \<lparr>image = ''gcc:latest'', extension = ''.c'',
         runCommand = (\<lambda>filename.
           let executable = replace ''.c'' [] filename
           in ''gcc -o '' @ executable @ '' '' @ filename @ '' && ./'' @ executable),
         codeTemplate = (\<lambda>code. code)\<rparr>]"

subsection \<open>Request validation\<close>

text \<open>A request body with its four properties; \<open>None\<close> is a property that is absent.
  Properties of another type than the schema's (a number for \<^verbatim>\<open>language\<close>, a string for
  \<^verbatim>\<open>timeout\<close>) and unknown properties are outside the model.\<close>

record execution_request =
  req_language :: "string option"
  req_code :: "string option"
  req_input :: "string option"
  req_timeout :: "rat option"

datatype validation_error =
    LanguageRequired | LanguageNotAllowed
  | CodeRequired | CodeEmpty | CodeTooLong
  | InputTooLong
  | TimeoutUnsafe | TimeoutTooSmall

definition MAX_SAFE_INTEGER :: rat where
  "MAX_SAFE_INTEGER = 2 ^ 53 - 1"

text \<open>\<^verbatim>\<open>executionRequestSchema.validate\<close>. Joi checks the keys in the order of the schema
  and stops at the first error. \<^verbatim>\<open>Joi.string()\<close> refuses the empty string unless
  \<^verbatim>\<open>allow('')\<close> is given; \<^verbatim>\<open>Joi.number()\<close> refuses a number outside the safe integer
  range before it applies \<^verbatim>\<open>min(1)\<close>; \<^verbatim>\<open>default(10)\<close> fills an absent timeout. The result
  is the validated \<^verbatim>\<open>value\<close>: language, code, input and timeout.\<close>

definition executionRequestSchema_validate ::
  "execution_request \<Rightarrow> validation_error + (string \<times> string \<times> string option \<times> rat)"
where
  "executionRequestSchema_validate r =
     (case req_language r of
        None \<Rightarrow> Inl LanguageRequired
      | Some language \<Rightarrow>
          if language \<notin> set [''javascript'', ''python'', ''java'', ''cpp'', ''c''] then
            Inl LanguageNotAllowed
          else
            (case req_code r of
               None \<Rightarrow> Inl CodeRequired
             | Some code \<Rightarrow>
                 if code = [] then Inl CodeEmpty
                 else if length code > 50000 then Inl CodeTooLong
                 else if (case req_input r of None \<Rightarrow> False | Some input \<Rightarrow> length input > 10000)
                 then Inl InputTooLong
                 else
                   (case req_timeout r of
                      None \<Rightarrow> Inr (language, code, req_input r, 10)
                    | Some timeout \<Rightarrow>
                        if timeout > MAX_SAFE_INTEGER \<or> timeout < - MAX_SAFE_INTEGER then
                          Inl TimeoutUnsafe
                        else if timeout < 1 then Inl TimeoutTooSmall
                        else Inr (language, code, req_input r, timeout))))"

text \<open>The division of two binary64 numbers gives the exact quotient rounded to the nearest
  binary64 number, a tie going to the even significand. For \<open>x \<ge> 1\<close> below the overflow
  threshold, the binary64 numbers around \<open>x\<close> are the multiples of \<open>ulp x\<close>, which is 2 to
  the power of the integer part of the binary logarithm of \<open>x\<close>, divided by \<open>2 ^ 52\<close>.
  The definitions are used for \<open>x \<ge> 1\<close> only.\<close>

fun log2floor :: "nat \<Rightarrow> nat" where
  "log2floor n = (if n < 2 then 0 else Suc (log2floor (n div 2)))"

declare log2floor.simps [simp del]

definition ulp :: "rat \<Rightarrow> rat" where
  "ulp x = 2 ^ log2floor (nat \<lfloor>x\<rfloor>) / 2 ^ 52"

definition round_half_even :: "rat \<Rightarrow> int" where
  "round_half_even z =
     (let f = \<lfloor>z\<rfloor>; d = z - of_int f
      in if d < 1 / 2 then f else if 1 / 2 < d then f + 1 else if even f then f else f + 1)"

definition binary64 :: "rat \<Rightarrow> rat" where
  "binary64 x = of_int (round_half_even (x / ulp x)) * ulp x"

text \<open>Lines 250 to 253 of \<^verbatim>\<open>executeCode\<close>: a timeout that is truthy (not 0) and above 1000
  is taken as milliseconds. \<^verbatim>\<open>Math.ceil\<close> is applied to the binary64 quotient.\<close>

definition normalize_timeout :: "rat option \<Rightarrow> rat option" where
  "normalize_timeout timeout =
     (case timeout of
        None \<Rightarrow> None
      | Some t \<Rightarrow>
          if t \<noteq> 0 \<and> t > 1000 then Some (of_int \<lceil>binary64 (t / 1000)\<rceil>) else Some t)"

subsection \<open>The execution record store\<close>

text \<open>The two module-level variables \<^verbatim>\<open>redisClient\<close> and \<^verbatim>\<open>memoryStorage\<close>.
  \<open>redisClient\<close> tells whether the variable holds a client (is not \<^verbatim>\<open>null\<close>);
  \<open>redis_up\<close> tells whether a command sent to the server succeeds or throws;
  \<open>redis_db\<close> is what the server holds, each value the JSON text of a record.
  The expiry after 3600 seconds is not modelled.\<close>

record store =
  redisClient :: bool
  redis_up :: bool
  redis_db :: "string \<rightharpoonup> jsobject"
  memoryStorage :: "string \<rightharpoonup> jsobject"

definition storeExecution :: "store \<Rightarrow> string \<Rightarrow> jsobject \<Rightarrow> store" where
  "storeExecution s executionId execution =
     (if redisClient s then
        (if redis_up s then
           s\<lparr>redis_db := (redis_db s)(''execution:'' @ executionId \<mapsto> JSON_stringify execution)\<rparr>
         else s\<lparr>memoryStorage := (memoryStorage s)(executionId \<mapsto> execution)\<rparr>)
      else s\<lparr>memoryStorage := (memoryStorage s)(executionId \<mapsto> execution)\<rparr>)"

text \<open>\<^verbatim>\<open>getExecution\<close> gives the record, or \<open>None\<close> for \<^verbatim>\<open>null\<close> and \<^verbatim>\<open>undefined\<close>.
  The flag tells whether the result is the very object that \<^verbatim>\<open>memoryStorage\<close> holds
  (\<^verbatim>\<open>Map.prototype.get\<close> returns a reference) or a fresh one made by \<^verbatim>\<open>JSON.parse\<close>.\<close>

definition getExecution :: "store \<Rightarrow> string \<Rightarrow> jsobject option \<times> bool" where
  "getExecution s executionId =
     (if redisClient s then
        (if redis_up s then (redis_db s (''execution:'' @ executionId), False)
         else (memoryStorage s executionId, True))
      else (memoryStorage s executionId, True))"

definition getExecutionStatus :: "store \<Rightarrow> string \<Rightarrow> string + jsobject" where
  "getExecutionStatus s executionId =
     (case fst (getExecution s executionId) of
        None \<Rightarrow> Inl ''Failed to get execution status: Execution not found''
      | Some execution \<Rightarrow> Inr execution)"

subsection \<open>The container engine\<close>

text \<open>What a call to the engine does is an input of the model: it returns or it throws
  an \<^verbatim>\<open>Error\<close> with a message.\<close>

datatype 'a outcome = Returns 'a | Throws string

text \<open>One container, as \<^verbatim>\<open>runCode\<close> sees it: the outcome of each method it awaits.
  \<open>logs_outcome\<close> is the buffer that \<^verbatim>\<open>container.logs\<close> resolves to and \<open>inspect_outcome\<close>
  the \<^verbatim>\<open>State.ExitCode\<close> of \<^verbatim>\<open>container.inspect\<close>. \<open>remove_outcome\<close> is the outcome of
  the \<^verbatim>\<open>remove\<close> in the \<^verbatim>\<open>try\<close> block. The \<^verbatim>\<open>stop\<close> and \<^verbatim>\<open>remove\<close> of the
  \<^verbatim>\<open>catch\<close> clause each sit in a \<^verbatim>\<open>try\<close> of their own that only logs, so nothing
  depends on how they end. \<open>timer_first\<close> tells which promise of \<^verbatim>\<open>Promise.race\<close> settles
  first: the timer of \<^verbatim>\<open>setTimeout\<close>, or the wait for the exit followed by the collection
  of the output.\<close>

record container =
  start_outcome :: "unit outcome"
  wait_outcome :: "unit outcome"
  logs_outcome :: "buffer outcome"
  inspect_outcome :: "int outcome"
  remove_outcome :: "unit outcome"
  timer_first :: bool

record host_config =
  Memory :: nat
  CpuQuota :: nat
  NetworkMode :: string
  ReadonlyRootfs :: bool
  Tmpfs :: "(string \<times> string) list"

record create_options =
  Image :: string
  Cmd :: "string list"
  WorkingDir :: string
  HostConfig :: host_config
  AttachStdout :: bool
  AttachStderr :: bool

text \<open>The calls made to the engine.\<close>

datatype docker_call =
  CreateContainer create_options | Start | Wait | Logs | Inspect | Stop | Remove

type_synonym docker = "create_options \<Rightarrow> container outcome"

subsection \<open>Collecting the output\<close>

text \<open>\<^verbatim>\<open>getContainerOutput\<close>. The whole body is inside a \<^verbatim>\<open>try\<close> whose \<^verbatim>\<open>catch\<close>
  returns a result, so the function never throws. \<^verbatim>\<open>container.logs\<close> without
  \<^verbatim>\<open>follow\<close> resolves to a \<^verbatim>\<open>Buffer\<close>, which is \<^verbatim>\<open>outputBuffer\<close>.\<close>

definition exit_info :: "string \<Rightarrow> string \<Rightarrow> container \<Rightarrow> container_output" where
  "exit_info success failure container =
     (case inspect_outcome container of
        Throws message \<Rightarrow> \<lparr>stdout = '''', stderr = ''Error capturing output: '' @ message\<rparr>
      | Returns ExitCode \<Rightarrow>
          if ExitCode = 0 then \<lparr>stdout = success, stderr = ''''\<rparr>
          else \<lparr>stdout = '''', stderr = failure @ string_of_int ExitCode\<rparr>)"

definition getContainerOutput ::
  "(buffer \<Rightarrow> string) \<Rightarrow> container \<Rightarrow> container_output \<times> docker_call list"
where
  "getContainerOutput utf8 container =
     (case logs_outcome container of
        Throws logError \<Rightarrow>
          (exit_info ''Program executed successfully''
             ''Container failed with exit code '' container, [Logs, Inspect])
      | Returns outputBuffer \<Rightarrow>
          if length outputBuffer > 0 then (parseDockerLogs utf8 outputBuffer, [Logs])
          else
            (exit_info ''Program executed successfully (no output captured)''
               ''Container exited with code '' container, [Logs, Inspect]))"

subsection \<open>Running the code\<close>

datatype run_error = UnsupportedLanguage string | TypeError

text \<open>The options of \<^verbatim>\<open>docker.createContainer\<close>.\<close>

definition container_options :: "language_config \<Rightarrow> string \<Rightarrow> create_options" where
  "container_options config code =
     \<lparr>Image = image config,
      Cmd = [''sh'', ''-c'',
             ''echo '' @ [CHR 0x27] @ replace_quotes code @ [CHR 0x27] @ '' > main''
             @ extension config @ '' && '' @ runCommand config (''main'' @ extension config)],
      WorkingDir = ''/app'',
      HostConfig =
        \<lparr>Memory = 128 * 1024 * 1024, CpuQuota = 50000, NetworkMode = ''none'',
         ReadonlyRootfs = True, Tmpfs = [(''/app'', ''rw,size=10m'')]\<rparr>,
      AttachStdout = True,
      AttachStderr = True\<rparr>"

text \<open>\<^verbatim>\<open>Promise.race([executionPromise, timeoutPromise])\<close>. \<^verbatim>\<open>executionPromise\<close> awaits
  \<^verbatim>\<open>container.wait()\<close> and then collects the output. The result is the outcome of the
  race, the calls made until it is decided, and the calls made after it. When the timer
  wins, nothing cancels \<^verbatim>\<open>executionPromise\<close>: once \<^verbatim>\<open>wait\<close> returns, it still calls
  \<^const>\<open>getContainerOutput\<close>, whose result nobody reads.\<close>

definition race ::
  "(buffer \<Rightarrow> string) \<Rightarrow> container
   \<Rightarrow> container_output outcome \<times> docker_call list \<times> docker_call list"
where
  "race utf8 container =
     (if timer_first container then
        (Throws ''Execution timeout'', [Wait],
         (case wait_outcome container of
            Throws message \<Rightarrow> []
          | Returns _ \<Rightarrow> snd (getContainerOutput utf8 container)))
      else
        (case wait_outcome container of
           Throws message \<Rightarrow> (Throws message, [Wait], [])
         | Returns _ \<Rightarrow>
             (case getContainerOutput utf8 container of
                (result, calls) \<Rightarrow> (Returns result, Wait # calls, []))))"

text \<open>The \<^verbatim>\<open>catch\<close> clause of \<^verbatim>\<open>runCode\<close>. \<open>execution\<close> is \<open>None\<close> when
  \<^verbatim>\<open>getExecution\<close> gave \<^verbatim>\<open>null\<close> or \<^verbatim>\<open>undefined\<close>: the first assignment then throws a
  \<^verbatim>\<open>TypeError\<close> that leaves \<^verbatim>\<open>runCode\<close>, before the container is stopped and removed.\<close>

definition runCode_catch ::
  "string \<Rightarrow> jsobject option \<Rightarrow> string \<Rightarrow> container option \<Rightarrow> docker_call list
   \<Rightarrow> (run_error + jsobject) \<times> docker_call list"
where
  "runCode_catch now execution message container calls =
     (case execution of
        None \<Rightarrow> (Inl TypeError, calls)
      | Some e \<Rightarrow>
          (Inr (AList.update ''endTime'' (JString now)
                 (AList.update ''error'' (JString message)
                   (AList.update ''status'' (JString ''failed'') e))),
           calls @ (case container of None \<Rightarrow> [] | Some c \<Rightarrow> [Stop, Remove])))"

text \<open>\<^verbatim>\<open>runCode\<close> between the read of the record and the final write: the record to
  store, or the error that leaves the function, and the calls made to the engine. The
  calls that the losing \<^verbatim>\<open>executionPromise\<close> makes after a timeout are listed last; when
  \<^verbatim>\<open>wait\<close> returns early they are made before \<^verbatim>\<open>stop\<close> or \<^verbatim>\<open>remove\<close>, which the
  inputs of the model do not decide.
  \<open>now\<close> is the clock reading of \<^verbatim>\<open>new Date().toISOString()\<close>. When \<open>execution\<close> is
  \<open>None\<close>, the assignment \<^verbatim>\<open>execution.status = 'completed'\<close> throws a \<^verbatim>\<open>TypeError\<close>
  into the \<^verbatim>\<open>catch\<close> clause, whose first assignment throws it again.\<close>

definition runCode_body ::
  "docker \<Rightarrow> (buffer \<Rightarrow> string) \<Rightarrow> string \<Rightarrow> jsobject option
   \<Rightarrow> string \<Rightarrow> string \<Rightarrow> string option \<Rightarrow> rat
   \<Rightarrow> (run_error + jsobject) \<times> docker_call list"
where
  "runCode_body docker utf8 now execution language code input timeout =
     (case LANGUAGE_CONFIG language of
        None \<Rightarrow> (Inl (UnsupportedLanguage language), [])
      | Some config \<Rightarrow>
          (let opts = container_options config code in
           case docker opts of
             Throws message \<Rightarrow> runCode_catch now execution message None [CreateContainer opts]
           | Returns container \<Rightarrow>
               (case start_outcome container of
                  Throws message \<Rightarrow>
                    runCode_catch now execution message (Some container)
                      [CreateContainer opts, Start]
                | Returns _ \<Rightarrow>
                    (case race utf8 container of
                       (Throws message, calls, later) \<Rightarrow>
                         (case runCode_catch now execution message (Some container)
                                 ([CreateContainer opts, Start] @ calls) of
                            (result, calls') \<Rightarrow> (result, calls' @ later))
                     | (Returns result, calls, later) \<Rightarrow>
                         (case remove_outcome container of
                            Throws message \<Rightarrow>
                              runCode_catch now execution message (Some container)
                                ([CreateContainer opts, Start] @ calls @ [Remove])
                          | Returns _ \<Rightarrow>
                              (case execution of
                                 None \<Rightarrow>
                                   (Inl TypeError, [CreateContainer opts, Start] @ calls @ [Remove])
                               | Some e \<Rightarrow>
                                   (Inr (AList.update ''endTime'' (JString now)
                                          (AList.update ''error'' (JString (stderr result))
                                            (AList.update ''output'' (JString (stdout result))
                                              (AList.update ''status'' (JString ''completed'') e)))),
                                    [CreateContainer opts, Start] @ calls @ [Remove])))))))"

text \<open>The end of \<^verbatim>\<open>runCode\<close>. The assignments to an object that \<^verbatim>\<open>memoryStorage\<close> holds
  are made on the stored object itself; then \<^verbatim>\<open>storeExecution\<close> writes the record. An
  error leaves \<^verbatim>\<open>runCode\<close> before either.\<close>

definition runCode_store ::
  "store \<Rightarrow> string \<Rightarrow> bool \<Rightarrow> run_error + jsobject \<Rightarrow> store"
where
  "runCode_store s executionId shared result =
     (case result of
        Inl err \<Rightarrow> s
      | Inr execution \<Rightarrow>
          storeExecution
            (if shared then s\<lparr>memoryStorage := (memoryStorage s)(executionId \<mapsto> execution)\<rparr> else s)
            executionId execution)"

text \<open>\<^verbatim>\<open>runCode\<close> in one piece: the store afterwards, the error if one left the function,
  and the calls made to the engine.\<close>

definition runCode ::
  "docker \<Rightarrow> (buffer \<Rightarrow> string) \<Rightarrow> string \<Rightarrow> store
   \<Rightarrow> string \<Rightarrow> string \<Rightarrow> string \<Rightarrow> string option \<Rightarrow> rat
   \<Rightarrow> store \<times> run_error option \<times> docker_call list"
where
  "runCode docker utf8 now s executionId language code input timeout =
     (case getExecution s executionId of
        (execution, shared) \<Rightarrow>
          (case runCode_body docker utf8 now execution language code input timeout of
             (result, calls) \<Rightarrow>
               (runCode_store s executionId shared result,
                (case result of Inl err \<Rightarrow> Some err | Inr _ \<Rightarrow> None),
                calls)))"

subsection \<open>Submitting a request\<close>

datatype submit_error = ValidationError validation_error

text \<open>The arguments of the \<^verbatim>\<open>runCode\<close> that \<^verbatim>\<open>executeCode\<close> starts without awaiting it:
  executionId, language, code, input, timeout.\<close>

type_synonym run_args = "string \<times> string \<times> string \<times> string option \<times> rat"

definition new_execution ::
  "string \<Rightarrow> string \<Rightarrow> string \<Rightarrow> string option \<Rightarrow> rat \<Rightarrow> string \<Rightarrow> jsobject"
where
  "new_execution executionId language code input timeout now =
     [(''id'', JString executionId),
      (''status'', JString ''pending''),
      (''language'', JString language),
      (''code'', JString code),
      (''input'', (case input of None \<Rightarrow> JUndefined | Some i \<Rightarrow> JString i)),
      (''timeout'', JNumber timeout),
      (''startTime'', JString now),
      (''endTime'', JNull),
      (''output'', JNull),
      (''error'', JNull)]"

text \<open>\<^verbatim>\<open>executeCode\<close>: the response or the thrown error, the store, and the task started.
  \<open>executionId\<close> is the result of \<^verbatim>\<open>uuidv4()\<close> and \<open>now\<close> the clock reading. The
  \<^verbatim>\<open>catch\<close> clause at the end of the source cannot be entered: \<^verbatim>\<open>storeExecution\<close> catches
  the errors of Redis itself, and \<^verbatim>\<open>runCode\<close> is an \<^verbatim>\<open>async\<close> function that is not
  awaited, so its errors reject a promise nobody holds.\<close>

definition executeCode ::
  "store \<Rightarrow> string \<Rightarrow> string \<Rightarrow> execution_request
   \<Rightarrow> (submit_error + jsobject) \<times> store \<times> run_args option"
where
  "executeCode s now executionId executionRequest =
     (case executionRequestSchema_validate
             (executionRequest\<lparr>req_timeout := normalize_timeout (req_timeout executionRequest)\<rparr>) of
        Inl err \<Rightarrow> (Inl (ValidationError err), s, None)
      | Inr (language, code, input, timeout) \<Rightarrow>
          (Inr [(''executionId'', JString executionId),
                (''status'', JString ''pending''),
                (''message'', JString ''Code execution started'')],
           storeExecution s executionId (new_execution executionId language code input timeout now),
           Some (executionId, language, code, input, timeout)))"

subsection \<open>The wire format of the log stream\<close>

text \<open>A well-formed frame as the engine writes it: the stream selector, three reserved
  bytes, the length of the payload as an unsigned 32-bit number, most significant byte
  first, and the payload. These definitions describe the input of \<^const>\<open>parseDockerLogs\<close>;
  the source only reads the format.\<close>

datatype frame =
  Frame (selector: byte) (reserved1: byte) (reserved2: byte) (reserved3: byte) (payload: buffer)

definition uint32BE :: "nat \<Rightarrow> buffer" where
  "uint32BE n = [of_nat (n div 2 ^ 24), of_nat (n div 2 ^ 16), of_nat (n div 2 ^ 8), of_nat n]"

definition wellformed :: "frame \<Rightarrow> bool" where
  "wellformed f = (length (payload f) < 2 ^ 32)"

definition frame_bytes :: "frame \<Rightarrow> buffer" where
  "frame_bytes f =
     [selector f, reserved1 f, reserved2 f, reserved3 f] @ uint32BE (length (payload f)) @ payload f"

text \<open>Bytes that do not hold a whole frame: the header is cut short, or it announces more
  payload than there is.\<close>

definition incomplete :: "buffer \<Rightarrow> bool" where
  "incomplete tail = (length tail < 8 \<or> length tail < 8 + readUInt32BE tail 4)"

text \<open>The UTF-8 decoder on buffers of ASCII bytes, where each byte is one character. It
  instantiates the parameter \<open>utf8\<close> when the model is run on a concrete buffer.\<close>

definition ascii :: "buffer \<Rightarrow> string" where
  "ascii bs = map (\<lambda>b. char_of (unat b)) bs"

subsection \<open>The service as a transition system\<close>

text \<open>\<^verbatim>\<open>executeCode\<close> starts \<^verbatim>\<open>runCode\<close> and returns; the task then runs between other
  requests. A task first reads its record (\<open>handle\<close> becomes the result of
  \<^const>\<open>getExecution\<close>), and later, when the container is done, writes the record back.
  Meanwhile Redis may start or stop answering, and the \<^verbatim>\<open>error\<close> listener may set
  \<^verbatim>\<open>redisClient\<close> to \<^verbatim>\<open>null\<close>. The assignments to the record and the write are one
  step: the status, the result and the end time are assigned without an \<^verbatim>\<open>await\<close> in
  between, and what follows until \<^verbatim>\<open>storeExecution\<close> does not touch the record.\<close>

datatype task =
  Task (task_language: string) (task_code: string) (task_input: "string option")
       (task_timeout: rat) (handle: "(jsobject option \<times> bool) option")

record service =
  the_store :: store
  tasks :: "string \<rightharpoonup> task"

datatype event =
    Submit string string execution_request
  | RunBegin string
  | RunEnd string docker "buffer \<Rightarrow> string" string
  | RedisHealth bool
  | RedisDropped

text \<open>\<^verbatim>\<open>uuidv4()\<close> returns an identifier that was never used: a submission under an
  identifier that is in use is not an event of the service and changes nothing.\<close>

definition fresh :: "service \<Rightarrow> string \<Rightarrow> bool" where
  "fresh sv executionId =
     (tasks sv executionId = None
      \<and> memoryStorage (the_store sv) executionId = None
      \<and> redis_db (the_store sv) (''execution:'' @ executionId) = None)"

fun apply_event :: "service \<Rightarrow> event \<Rightarrow> service" where
  "apply_event sv (Submit now executionId request) =
     (if fresh sv executionId then
        (case executeCode (the_store sv) now executionId request of
           (response, s', None) \<Rightarrow> sv\<lparr>the_store := s'\<rparr>
         | (response, s', Some (eid, language, code, input, timeout)) \<Rightarrow>
             \<lparr>the_store = s',
              tasks = (tasks sv)(eid \<mapsto> Task language code input timeout None)\<rparr>)
      else sv)"
| "apply_event sv (RunBegin executionId) =
     (case tasks sv executionId of
        Some (Task language code input timeout None) \<Rightarrow>
          sv\<lparr>tasks := (tasks sv)(executionId \<mapsto>
                 Task language code input timeout (Some (getExecution (the_store sv) executionId)))\<rparr>
      | _ \<Rightarrow> sv)"
| "apply_event sv (RunEnd executionId docker utf8 now) =
     (case tasks sv executionId of
        Some (Task language code input timeout (Some (execution, shared))) \<Rightarrow>
          \<lparr>the_store =
             runCode_store (the_store sv) executionId shared
               (fst (runCode_body docker utf8 now execution language code input timeout)),
           tasks = (tasks sv)(executionId := None)\<rparr>
      | _ \<Rightarrow> sv)"
| "apply_event sv (RedisHealth up) = sv\<lparr>the_store := (the_store sv)\<lparr>redis_up := up\<rparr>\<rparr>"
| "apply_event sv RedisDropped = sv\<lparr>the_store := (the_store sv)\<lparr>redisClient := False\<rparr>\<rparr>"

definition initial :: "bool \<Rightarrow> bool \<Rightarrow> service" where
  "initial client up =
     \<lparr>the_store = \<lparr>redisClient = client, redis_up = up,
                   redis_db = Map.empty, memoryStorage = Map.empty\<rparr>,
      tasks = Map.empty\<rparr>"

definition terminal :: "jsobject \<Rightarrow> bool" where
  "terminal r =
     (get_prop r ''status'' = JString ''completed'' \<or> get_prop r ''status'' = JString ''failed'')"

text \<open>The records that either backend holds.\<close>

definition stored :: "service \<Rightarrow> jsobject set" where
  "stored sv = ran (memoryStorage (the_store sv)) \<union> ran (redis_db (the_store sv))"

text \<open>A record is consistent when its end time is set exactly if its status is terminal.
  The invariant of the service: every stored record is consistent, and while a task is
  under way no backend holds a terminal record under the identifier of the task.\<close>

definition consistent :: "jsobject \<Rightarrow> bool" where
  "consistent r = (get_prop r ''endTime'' \<noteq> JNull \<longleftrightarrow> terminal r)"

definition invariant :: "service \<Rightarrow> bool" where
  "invariant sv =
     ((\<forall>executionId r. memoryStorage (the_store sv) executionId = Some r \<longrightarrow> consistent r)
      \<and> (\<forall>key r. redis_db (the_store sv) key = Some r \<longrightarrow> consistent r)
      \<and> (\<forall>executionId r. tasks sv executionId \<noteq> None \<longrightarrow>
             memoryStorage (the_store sv) executionId = Some r \<longrightarrow> \<not> terminal r)
      \<and> (\<forall>executionId r. tasks sv executionId \<noteq> None \<longrightarrow>
             redis_db (the_store sv) (''execution:'' @ executionId) = Some r \<longrightarrow> \<not> terminal r))"

section \<open>Properties\<close>

subsection \<open>Reading frames\<close>

lemma uint32BE_value:
  fixes n :: nat
  assumes "n < 2 ^ 32"
  shows "unat (of_nat (n div 2 ^ 24) :: byte) * 2 ^ 24 + unat (of_nat (n div 2 ^ 16) :: byte) * 2 ^ 16
         + unat (of_nat (n div 2 ^ 8) :: byte) * 2 ^ 8 + unat (of_nat n :: byte) = n"
proof -
  define n1 where "n1 = n div 256"
  define n2 where "n2 = n1 div 256"
  define n3 where "n3 = n2 div 256"
  have d1: "n div 256 = n1" by (simp add: n1_def)
  have d2: "n div 65536 = n2"
    using div_mult2_eq [of n 256 256] by (simp add: n1_def n2_def)
  have d3: "n div 16777216 = n3"
    using div_mult2_eq [of n 65536 256] d2 by (simp add: n3_def)
  have small: "n3 < 256" using assms by (simp add: less_mult_imp_div_less flip: d3)
  have e0: "n = n1 * 256 + n mod 256" by (simp add: n1_def)
  have e1: "n1 = n2 * 256 + n1 mod 256" by (simp add: n2_def)
  have e2: "n2 = n3 * 256 + n2 mod 256" by (simp add: n3_def)
  have "n3 mod 256 * 16777216 + n2 mod 256 * 65536 + n1 mod 256 * 256 + n mod 256 = n"
    using e0 e1 e2 small by simp
  then show ?thesis
    by (simp add: unat_of_nat d1 d2 d3)
qed

lemma length_frame_bytes: "length (frame_bytes f) = 8 + length (payload f)"
  by (simp add: frame_bytes_def uint32BE_def)

lemma readUInt8_frame: "readUInt8 (pre @ frame_bytes f @ rest) (length pre) = unat (selector f)"
  by (simp add: readUInt8_def frame_bytes_def)

lemma readUInt32BE_frame:
  assumes "wellformed f"
  shows "readUInt32BE (pre @ frame_bytes f @ rest) (length pre + 4) = length (payload f)"
proof -
  have "readUInt32BE (pre @ frame_bytes f @ rest) (length pre + 4)
        = readUInt32BE (uint32BE (length (payload f))) 0"
    by (simp add: readUInt32BE_def frame_bytes_def uint32BE_def nth_append)
  also have "\<dots> = length (payload f)"
    using uint32BE_value [of "length (payload f)"] assms
    by (simp add: readUInt32BE_def uint32BE_def wellformed_def)
  finally show ?thesis .
qed

lemma slice_frame:
  "buffer_slice (pre @ frame_bytes f @ rest) (length pre + 8) (length pre + (8 + length (payload f)))
   = payload f"
  by (simp add: buffer_slice_def frame_bytes_def uint32BE_def)

lemma parse_frames_step:
  assumes "wellformed f"
  shows "parse_frames utf8 (pre @ frame_bytes f @ rest) (length pre) out err =
         parse_frames utf8 ((pre @ frame_bytes f) @ rest) (length (pre @ frame_bytes f))
           (if selector f = 2 then out else out @ [utf8 (payload f)])
           (if selector f = 2 then err @ [utf8 (payload f)] else err)"
proof -
  have two: "unat (selector f) = 2 \<longleftrightarrow> selector f = 2"
    by (simp add: word_unat_eq_iff)
  show ?thesis
    by (subst parse_frames.simps)
       (simp add: Let_def readUInt8_frame readUInt32BE_frame [OF assms] slice_frame
          length_frame_bytes two add.assoc)
qed
lemma readUInt32BE_append:
  "4 \<le> length tail - k \<Longrightarrow> k \<le> length tail \<Longrightarrow>
   readUInt32BE (pre @ tail) (length pre + k) = readUInt32BE tail k"
  by (simp add: readUInt32BE_def nth_append)

lemma parse_frames_tail:
  assumes "incomplete tail"
  shows "parse_frames utf8 (pre @ tail) (length pre) out err = (out, err)"
proof (cases "length tail < 8")
  case True
  then show ?thesis by (subst parse_frames.simps) simp
next
  case False
  then have "length tail < 8 + readUInt32BE tail 4"
    using assms by (simp add: incomplete_def)
  moreover have "readUInt32BE (pre @ tail) (length pre + 4) = readUInt32BE tail 4"
    using False by (intro readUInt32BE_append) simp_all
  ultimately show ?thesis by (subst parse_frames.simps) (simp add: Let_def)
qed

lemma parse_frames_frames:
  assumes "\<forall>f\<in>set fs. wellformed f" and "incomplete tail"
  shows "parse_frames utf8 (pre @ concat (map frame_bytes fs) @ tail) (length pre) out err =
         (out @ map (utf8 \<circ> payload) (filter (\<lambda>f. selector f \<noteq> 2) fs),
          err @ map (utf8 \<circ> payload) (filter (\<lambda>f. selector f = 2) fs))"
  using assms
proof (induction fs arbitrary: pre out err)
  case Nil
  then show ?case by (simp add: parse_frames_tail)
next
  case (Cons f fs)
  have wf: "wellformed f" using Cons.prems by simp
  have "parse_frames utf8 (pre @ concat (map frame_bytes (f # fs)) @ tail) (length pre) out err =
        parse_frames utf8 (pre @ frame_bytes f @ (concat (map frame_bytes fs) @ tail)) (length pre) out err"
    by simp
  also have "\<dots> =
        parse_frames utf8 ((pre @ frame_bytes f) @ concat (map frame_bytes fs) @ tail)
          (length (pre @ frame_bytes f))
          (if selector f = 2 then out else out @ [utf8 (payload f)])
          (if selector f = 2 then err @ [utf8 (payload f)] else err)"
    by (rule parse_frames_step [OF wf])
  also have "\<dots> =
        ((if selector f = 2 then out else out @ [utf8 (payload f)])
           @ map (utf8 \<circ> payload) (filter (\<lambda>f. selector f \<noteq> 2) fs),
         (if selector f = 2 then err @ [utf8 (payload f)] else err)
           @ map (utf8 \<circ> payload) (filter (\<lambda>f. selector f = 2) fs))"
    using Cons.prems by (intro Cons.IH) simp_all
  finally show ?case by simp
qed

lemma incomplete_Nil: "incomplete []"
  by (simp add: incomplete_def)

lemma filter_selector_nonempty:
  "frames \<noteq> [] \<Longrightarrow>
   filter (\<lambda>f. selector f \<noteq> 2) frames \<noteq> [] \<or> filter (\<lambda>f. selector f = 2) frames \<noteq> []"
  by (cases frames) auto

lemma parse_frames_buffer:
  assumes "\<forall>f\<in>set frames. wellformed f" and "incomplete tail"
  shows "parse_frames utf8 (concat (map frame_bytes frames) @ tail) 0 [] [] =
         (map (utf8 \<circ> payload) (filter (\<lambda>f. selector f \<noteq> 2) frames),
          map (utf8 \<circ> payload) (filter (\<lambda>f. selector f = 2) frames))"
  using parse_frames_frames [OF assms, of utf8 "[]" "[]" "[]"] by simp

lemma trim_Nil: "trim [] = []"
  by (simp add: trim_def)

subsection \<open>C4: the demultiplexer on well-formed frames\<close>

text \<open>
  Claim C4. For a buffer that is the concatenation of any number of well-formed frames,
  \<^const>\<open>parseDockerLogs\<close> returns as stdout the trimmed concatenation of the decoded payloads
  of the frames whose selector is not 2 (selector 1 and every other value), in order, and
  as stderr the trimmed concatenation of the decoded payloads of the frames whose selector
  is 2. When bytes that do not hold a whole frame follow the frames (a header cut short,
  or a header that announces more payload than is left), the loop stops after the last
  whole frame: it collects the same chunks as without those bytes, and for at least one
  frame the result of \<^const>\<open>parseDockerLogs\<close> is the same. Each payload is decoded on its
  own, as the source does; the decoder maps the empty buffer to the empty string.
\<close>

theorem parseDockerLogs_wellformed_frames:
  assumes "\<forall>f\<in>set frames. wellformed f" and "utf8 [] = []"
  shows "parseDockerLogs utf8 (concat (map frame_bytes frames)) =
           \<lparr>stdout = trim (concat (map (utf8 \<circ> payload) (filter (\<lambda>f. selector f \<noteq> 2) frames))),
            stderr = trim (concat (map (utf8 \<circ> payload) (filter (\<lambda>f. selector f = 2) frames)))\<rparr>
         \<and> (\<forall>tail. incomplete tail \<longrightarrow>
               parse_frames utf8 (concat (map frame_bytes frames) @ tail) 0 [] [] =
               parse_frames utf8 (concat (map frame_bytes frames)) 0 [] []
               \<and> (frames \<noteq> [] \<longrightarrow>
                    parseDockerLogs utf8 (concat (map frame_bytes frames) @ tail) =
                    parseDockerLogs utf8 (concat (map frame_bytes frames))))"
proof -
  let ?out = "map (utf8 \<circ> payload) (filter (\<lambda>f. selector f \<noteq> 2) frames)"
  let ?err = "map (utf8 \<circ> payload) (filter (\<lambda>f. selector f = 2) frames)"
  have loop: "parse_frames utf8 (concat (map frame_bytes frames) @ tail) 0 [] [] = (?out, ?err)"
    if "incomplete tail" for tail
    using parse_frames_buffer [OF assms(1) that] .
  have loop0: "parse_frames utf8 (concat (map frame_bytes frames)) 0 [] [] = (?out, ?err)"
    using loop [OF incomplete_Nil] by simp
  have some: "?out \<noteq> [] \<or> ?err \<noteq> []" if "frames \<noteq> []"
    using filter_selector_nonempty [OF that] by simp
  have whole: "parseDockerLogs utf8 (concat (map frame_bytes frames)) =
      \<lparr>stdout = trim (concat ?out), stderr = trim (concat ?err)\<rparr>"
  proof (cases "frames = []")
    case True
    with loop0 show ?thesis by (simp add: parseDockerLogs_def assms(2) trim_Nil)
  next
    case False
    from some [OF this] show ?thesis by (auto simp: parseDockerLogs_def loop0)
  qed
  have rest: "parseDockerLogs utf8 (concat (map frame_bytes frames) @ tail) =
      parseDockerLogs utf8 (concat (map frame_bytes frames))"
    if "incomplete tail" and "frames \<noteq> []" for tail
    using some [OF that(2)] by (auto simp: parseDockerLogs_def loop [OF that(1)] loop0)
  show ?thesis
    using whole loop loop0 rest by simp
qed

theorem parseDockerLogs_wellformed_frames_witness:
  "parseDockerLogs ascii
     [1, 0, 0, 0, 0, 0, 0, 3, 104, 105, 10,  2, 0, 0, 0, 0, 0, 0, 1, 33,  7, 0, 0, 0, 0, 0, 0, 2, 32, 32]
   = \<lparr>stdout = ''hi'', stderr = ''!''\<rparr>
   \<and> parseDockerLogs ascii
     [1, 0, 0, 0, 0, 0, 0, 3, 104, 105, 10,  2, 0, 0, 0, 0, 0, 0, 1, 33,  7, 0, 0, 0, 0, 0, 0, 2, 32, 32,
      1, 0, 0, 0, 0, 0, 0, 9, 111, 111]
   = \<lparr>stdout = ''hi'', stderr = ''!''\<rparr>"
proof -
  let ?frames = "[Frame 1 0 0 0 [104, 105, 10], Frame 2 0 0 0 [33], Frame 7 0 0 0 [32, 32]]"
  have wf: "\<forall>f\<in>set ?frames. wellformed f" by (simp add: wellformed_def)
  have dec: "ascii [] = []" by (simp add: ascii_def)
  have tail: "incomplete [1, 0, 0, 0, 0, 0, 0, 9, 111, 111]"
    by (simp add: incomplete_def readUInt32BE_def)
  show ?thesis
    using parseDockerLogs_wellformed_frames [of ?frames ascii, OF wf dec] tail
    by (simp add: frame_bytes_def uint32BE_def ascii_def trim_def isWhiteSpace_def
        char_of_def bit_iff_odd drop_bit_eq_div)
qed

subsection \<open>C5: the fallbacks of the output capture\<close>

lemma string_of_nat_nonempty: "string_of_nat n \<noteq> []"
  by (subst string_of_nat.simps) simp

lemma string_of_int_nonempty: "string_of_int i \<noteq> []"
  by (simp add: string_of_int_def string_of_nat_nonempty)

lemma race_completes:
  assumes "\<not> timer_first c" and "wait_outcome c = Returns u"
  shows "race utf8 c =
           (Returns (fst (getContainerOutput utf8 c)), Wait # snd (getContainerOutput utf8 c), [])"
  using assms by (simp add: race_def split: prod.splits)

lemma runCode_body_completed:
  assumes "LANGUAGE_CONFIG language = Some config"
    and "docker (container_options config code) = Returns c"
    and "start_outcome c = Returns u1"
    and "\<not> timer_first c"
    and "wait_outcome c = Returns u2"
    and "remove_outcome c = Returns u3"
  shows "fst (runCode_body docker utf8 now (Some e) language code input timeout) =
         Inr (AList.update ''endTime'' (JString now)
               (AList.update ''error'' (JString (stderr (fst (getContainerOutput utf8 c))))
                 (AList.update ''output'' (JString (stdout (fst (getContainerOutput utf8 c))))
                   (AList.update ''status'' (JString ''completed'') e))))"
  using assms by (simp add: runCode_body_def race_completes)

lemma get_prop_update:
  "get_prop (AList.update k v obj) k' = (if k' = k then v else get_prop obj k')"
  by (simp add: get_prop_def update_conv')

text \<open>
  Claim C5. The fallbacks of \<^const>\<open>getContainerOutput\<close>, in their order. When the log buffer
  is not empty and the loop finds no frame in it, the whole buffer, decoded and trimmed,
  is stdout and stderr is empty. When the log buffer is empty, the exit code decides:
  exit code 0 gives a fixed message in stdout, which is not empty, and an empty stderr;
  another exit code gives an empty stdout and a stderr that is not empty and ends with
  the decimal exit code. Whatever \<^verbatim>\<open>logs\<close> and \<^verbatim>\<open>inspect\<close> do, also when they throw, an
  execution whose container was created, started, exited before the timer and was
  removed gets the status \<^verbatim>\<open>completed\<close>.
\<close>

theorem getContainerOutput_fallbacks:
  "(logs_outcome c = Returns buf \<and> buf \<noteq> [] \<and> parse_frames utf8 buf 0 [] [] = ([], []) \<longrightarrow>
      fst (getContainerOutput utf8 c) = \<lparr>stdout = trim (utf8 buf), stderr = ''''\<rparr>)
   \<and> (logs_outcome c = Returns [] \<and> inspect_outcome c = Returns 0 \<longrightarrow>
      fst (getContainerOutput utf8 c) =
        \<lparr>stdout = ''Program executed successfully (no output captured)'', stderr = ''''\<rparr>
      \<and> stdout (fst (getContainerOutput utf8 c)) \<noteq> '''')
   \<and> (logs_outcome c = Returns [] \<and> inspect_outcome c = Returns n \<and> n \<noteq> 0 \<longrightarrow>
      fst (getContainerOutput utf8 c) =
        \<lparr>stdout = '''', stderr = ''Container exited with code '' @ string_of_int n\<rparr>
      \<and> stderr (fst (getContainerOutput utf8 c)) \<noteq> '''')
   \<and> (LANGUAGE_CONFIG language = Some config \<and> docker (container_options config code) = Returns c
      \<and> start_outcome c = Returns () \<and> \<not> timer_first c \<and> wait_outcome c = Returns ()
      \<and> remove_outcome c = Returns () \<longrightarrow>
      (\<exists>e'. fst (runCode_body docker utf8 now (Some e) language code input timeout) = Inr e'
            \<and> get_prop e' ''status'' = JString ''completed''))"
proof -
  have a: "fst (getContainerOutput utf8 c) = \<lparr>stdout = trim (utf8 buf), stderr = ''''\<rparr>"
    if "logs_outcome c = Returns buf" "buf \<noteq> []" "parse_frames utf8 buf 0 [] [] = ([], [])"
    using that by (simp add: getContainerOutput_def parseDockerLogs_def)
  have b: "fst (getContainerOutput utf8 c) =
      \<lparr>stdout = ''Program executed successfully (no output captured)'', stderr = ''''\<rparr>"
    if "logs_outcome c = Returns []" "inspect_outcome c = Returns 0"
    using that by (simp add: getContainerOutput_def exit_info_def)
  have c: "fst (getContainerOutput utf8 c) =
      \<lparr>stdout = '''', stderr = ''Container exited with code '' @ string_of_int n\<rparr>"
    if "logs_outcome c = Returns []" "inspect_outcome c = Returns n" "n \<noteq> 0"
    using that by (simp add: getContainerOutput_def exit_info_def)
  have d: "\<exists>e'. fst (runCode_body docker utf8 now (Some e) language code input timeout) = Inr e'
            \<and> get_prop e' ''status'' = JString ''completed''"
    if "LANGUAGE_CONFIG language = Some config" "docker (container_options config code) = Returns c"
       "start_outcome c = Returns ()" "\<not> timer_first c" "wait_outcome c = Returns ()"
       "remove_outcome c = Returns ()"
    using that runCode_body_completed [of language config docker code c "()" "()" "()" utf8 now e input timeout]
    by (simp add: get_prop_update)
  show ?thesis
    using a b c d by (simp add: string_of_int_nonempty)
qed

theorem getContainerOutput_fallbacks_witness:
  "fst (getContainerOutput ascii
     \<lparr>start_outcome = Returns (), wait_outcome = Returns (), logs_outcome = Returns [104, 105, 10],
      inspect_outcome = Returns 0, remove_outcome = Returns (), timer_first = False\<rparr>)
   = \<lparr>stdout = ''hi'', stderr = ''''\<rparr>
   \<and> fst (getContainerOutput ascii
     \<lparr>start_outcome = Returns (), wait_outcome = Returns (), logs_outcome = Returns [],
      inspect_outcome = Returns 0, remove_outcome = Returns (), timer_first = False\<rparr>)
   = \<lparr>stdout = ''Program executed successfully (no output captured)'', stderr = ''''\<rparr>
   \<and> fst (getContainerOutput ascii
     \<lparr>start_outcome = Returns (), wait_outcome = Returns (), logs_outcome = Returns [],
      inspect_outcome = Returns 137, remove_outcome = Returns (), timer_first = False\<rparr>)
   = \<lparr>stdout = '''', stderr = ''Container exited with code 137''\<rparr>
   \<and> (\<exists>e'. fst (runCode_body
          (\<lambda>opts. Returns \<lparr>start_outcome = Returns (), wait_outcome = Returns (),
             logs_outcome = Throws ''no logs'', inspect_outcome = Throws ''no such container'',
             remove_outcome = Returns (), timer_first = False\<rparr>)
          ascii ''T1'' (Some (new_execution ''e1'' ''python'' ''print(1)'' None 10 ''T0''))
          ''python'' ''print(1)'' None 10) = Inr e'
        \<and> get_prop e' ''status'' = JString ''completed'')"
proof -
  let ?c1 = "\<lparr>start_outcome = Returns (), wait_outcome = Returns (), logs_outcome = Returns [104, 105, 10],
      inspect_outcome = Returns 0, remove_outcome = Returns (), timer_first = False\<rparr>"
  let ?c2 = "\<lparr>start_outcome = Returns (), wait_outcome = Returns (), logs_outcome = Returns [],
      inspect_outcome = Returns 0, remove_outcome = Returns (), timer_first = False\<rparr>"
  let ?c3 = "\<lparr>start_outcome = Returns (), wait_outcome = Returns (), logs_outcome = Returns [],
      inspect_outcome = Returns 137, remove_outcome = Returns (), timer_first = False\<rparr>"
  let ?c4 = "\<lparr>start_outcome = Returns (), wait_outcome = Returns (),
             logs_outcome = Throws ''no logs'', inspect_outcome = Throws ''no such container'',
             remove_outcome = Returns (), timer_first = False\<rparr>"
  have none: "parse_frames ascii [104, 105, 10] 0 [] [] = ([], [])"
    by (subst parse_frames.simps) simp
  have cfg: "LANGUAGE_CONFIG ''python'' \<noteq> None"
    by (simp add: LANGUAGE_CONFIG_def)
  have s137: "string_of_int 137 = ''137''"
    by (simp add: string_of_int_def string_of_nat.simps)
  have t: "trim (ascii [104, 105, 10]) = ''hi''"
    by (simp add: ascii_def trim_def isWhiteSpace_def char_of_def bit_iff_odd drop_bit_eq_div)
  from cfg obtain config where config: "LANGUAGE_CONFIG ''python'' = Some config" by blast
  show ?thesis
    using getContainerOutput_fallbacks [of ?c1 "[104, 105, 10]" ascii 0 "''python''" config "\<lambda>opts. Returns ?c1"]
      getContainerOutput_fallbacks [of ?c2 "[]" ascii 0 "''python''" config "\<lambda>opts. Returns ?c2"]
      getContainerOutput_fallbacks [of ?c3 "[]" ascii 137 "''python''" config "\<lambda>opts. Returns ?c3"]
      getContainerOutput_fallbacks [of ?c4 "[]" ascii 0 "''python''" config "\<lambda>opts. Returns ?c4"
        "''print(1)''" "''T1''" "new_execution ''e1'' ''python'' ''print(1)'' None 10 ''T0''" None 10]
      none config s137 t
    by simp
qed

subsection \<open>The rounding of the quotient\<close>

lemma log2floor_bounds: "0 < n \<Longrightarrow> 2 ^ log2floor n \<le> n \<and> n < 2 ^ Suc (log2floor n)"
proof (induction n rule: log2floor.induct)
  case (1 n)
  show ?case
  proof (cases "n < 2")
    case True
    with 1 show ?thesis by (simp add: log2floor.simps)
  next
    case False
    then have pos: "0 < n div 2" by simp
    from 1(1) [OF False pos] have "2 ^ log2floor (n div 2) \<le> n div 2"
      and "n div 2 < 2 ^ Suc (log2floor (n div 2))" by simp_all
    then have "2 * 2 ^ log2floor (n div 2) \<le> n" and "n < 2 * 2 ^ Suc (log2floor (n div 2))"
      by linarith+
    with False show ?thesis by (subst (1 2) log2floor.simps) simp
  qed
qed

lemma round_half_even_int: "round_half_even (of_int k) = k"
  by (simp add: round_half_even_def)

lemma round_half_even_bounds: "\<lfloor>z\<rfloor> \<le> round_half_even z \<and> round_half_even z \<le> \<lfloor>z\<rfloor> + 1"
  by (simp add: round_half_even_def Let_def)

lemma round_half_even_up: "1 / 2 < z - of_int \<lfloor>z\<rfloor> \<Longrightarrow> round_half_even z = \<lfloor>z\<rfloor> + 1"
  by (simp add: round_half_even_def Let_def)



lemma round_half_even_le_ceiling: "round_half_even z \<le> \<lceil>z\<rceil>"
  by (auto simp: round_half_even_def Let_def ceiling_altdef)

lemma ulp_pos: "0 < ulp x"
  by (simp add: ulp_def)

lemma floor_log2floor:
  assumes "1 \<le> x"
  shows "2 ^ log2floor (nat \<lfloor>x\<rfloor>) \<le> x" and "x < 2 ^ Suc (log2floor (nat \<lfloor>x\<rfloor>))"
proof -
  define e where "e = log2floor (nat \<lfloor>x\<rfloor>)"
  have pos: "0 < nat \<lfloor>x\<rfloor>" using assms by simp
  have fl: "int (nat \<lfloor>x\<rfloor>) = \<lfloor>x\<rfloor>" using assms by simp
  from log2floor_bounds [OF pos] have b1: "2 ^ e \<le> nat \<lfloor>x\<rfloor>" and b2: "nat \<lfloor>x\<rfloor> < 2 ^ Suc e"
    by (simp_all add: e_def)
  from b1 have "int (2 ^ e) \<le> int (nat \<lfloor>x\<rfloor>)" by (simp only: of_nat_le_iff)
  then have "(2::int) ^ e \<le> \<lfloor>x\<rfloor>" unfolding fl by simp
  then have "of_int (2 ^ e) \<le> x" by (simp only: le_floor_iff)
  then show "2 ^ log2floor (nat \<lfloor>x\<rfloor>) \<le> x" by (simp add: e_def)
  from b2 have "int (nat \<lfloor>x\<rfloor>) < int (2 ^ Suc e)" by (simp only: of_nat_less_iff)
  then have "\<lfloor>x\<rfloor> < (2::int) ^ Suc e" unfolding fl by simp
  then have "x < of_int (2 ^ Suc e)" by (simp only: floor_less_iff)
  then show "x < 2 ^ Suc (log2floor (nat \<lfloor>x\<rfloor>))" by (simp add: e_def)
qed


lemma ceiling_binary64_quotient:
  assumes dbl: "binary64 t = t" and lo: "1000 < t" and hi: "t \<le> 2 ^ 53"
  shows "\<lceil>binary64 (t / 1000)\<rceil> = \<lceil>t / 1000\<rceil>"
proof -
  define x where "x = t / 1000"
  define e where "e = log2floor (nat \<lfloor>x\<rfloor>)"
  define et where "et = log2floor (nat \<lfloor>t\<rfloor>)"
  define n where "n = \<lceil>x\<rceil>"
  have tx: "t = 1000 * x" by (simp add: x_def)
  have x1: "1 \<le> x" using lo by (simp add: x_def)
  have t1: "1 \<le> t" using lo by simp
  note bx = floor_log2floor [OF x1, folded e_def]
  note bt = floor_log2floor [OF t1, folded et_def]
  have "(2::rat) ^ (e + 9) = 512 * 2 ^ e" by (simp add: power_add)
  also have "\<dots> \<le> 1000 * x" using bx(1) x1 by simp
  finally have "(2::rat) ^ (e + 9) < 2 ^ Suc et" using bt(2) tx by simp
  then have "e + 9 < Suc et" by (rule power_less_imp_less_exp [rotated]) simp
  then have e_et: "e + 9 \<le> et" by simp
  have "(2::rat) ^ et \<le> 2 ^ 53" using bt(1) hi by (rule order_trans)
  then have et53: "et \<le> 53" by (rule power_le_imp_le_exp [rotated]) simp
  have e52: "e \<le> 44" using e_et et53 by linarith
  define Ki :: int where "Ki = 2 ^ (52 - e)"
  define K :: rat where "K = of_int Ki"
  have K2: "K = 2 ^ (52 - e)" by (simp add: K_def Ki_def)
  have Kipos: "0 < Ki" by (simp add: Ki_def)
  have Kpos: "0 < K" by (simp add: K2)
  have split52: "(2::rat) ^ 52 = 2 ^ e * 2 ^ (52 - e)"
    using e52 by (simp flip: power_add)
  have ux: "ulp x = 1 / K"
    unfolding ulp_def K2 split52 by (simp add: e_def)
  define v where "v = ulp t"
  have v2: "v = 2 ^ et / 2 ^ 52" by (simp add: v_def ulp_def et_def)
  have vpos: "0 < v" by (simp add: v2)
  have "(2::rat) ^ (52 - e) * 2 ^ (e + 9) = 2 ^ 61"
    using e52 by (simp flip: power_add)
  moreover have "(2::rat) ^ (e + 9) \<le> 2 ^ et" using e_et by (intro power_increasing) simp_all
  ultimately have "(2::rat) ^ 61 \<le> 2 ^ (52 - e) * 2 ^ et"
    by (metis mult_left_mono zero_le_numeral zero_le_power)
  then have Kv: "512 \<le> K * v" by (simp add: K2 v2)
  obtain rt :: int where rt: "t = of_int rt * v"
    using dbl unfolding binary64_def v_def by metis
  define N :: rat where "N = 1000 * (of_int n - 1)"
  have p55: "(2::rat) ^ (55 - et) * 2 ^ et = 2 ^ 55"
    using et53 by (simp flip: power_add)
  have "of_int (125 * (n - 1) * 2 ^ (55 - et)) * v
        = 125 * (of_int n - 1) * ((2 ^ (55 - et) * 2 ^ et) / 2 ^ 52)"
    by (simp add: v2)
  also have "\<dots> = N" unfolding p55 by (simp add: N_def)
  finally obtain m :: int where m: "N = of_int m * v" by metis
  have "of_int n - 1 < x" unfolding n_def by linarith
  then have Nt: "N < t" by (simp add: N_def tx)
  then have "of_int m * v < of_int rt * v" by (simp only: m rt)
  then have "(of_int m :: rat) < of_int rt" using vpos by simp
  then have "m + 1 \<le> rt" by simp
  then have "(of_int (m + 1) :: rat) \<le> of_int rt" by (simp only: of_int_le_iff)
  then have "of_int (m + 1) * v \<le> of_int rt * v" using vpos by simp
  then have gap: "v \<le> t - N" by (simp add: m rt algebra_simps)
  define z where "z = x * K"
  define r where "r = round_half_even z"
  have bz: "binary64 x = of_int r / K"
    by (simp add: binary64_def ux z_def r_def)
  have "x \<le> of_int n" unfolding n_def by linarith
  then have "z \<le> of_int (n * Ki)" using Kpos by (simp add: z_def K_def)
  then have "\<lceil>z\<rceil> \<le> n * Ki" by (simp only: ceiling_le_iff)
  with round_half_even_le_ceiling [of z] have upper: "r \<le> n * Ki" by (simp add: r_def)
  have "of_int ((n - 1) * Ki) < z"
    using \<open>of_int n - 1 < x\<close> Kpos by (simp add: z_def K_def)
  then have fz: "(n - 1) * Ki \<le> \<lfloor>z\<rfloor>" by linarith
  have lower: "(n - 1) * Ki < r"
  proof (cases "\<lfloor>z\<rfloor> = (n - 1) * Ki")
    case True
    have "(of_int \<lfloor>z\<rfloor> :: rat) = (of_int n - 1) * K"
      by (simp add: True K_def)
    then have "z - of_int \<lfloor>z\<rfloor> = (t - N) * K / 1000"
      by (simp add: z_def N_def tx algebra_simps)
    moreover have "512 \<le> (t - N) * K"
    proof -
      have "K * v \<le> K * (t - N)" using gap Kpos by simp
      with Kv show ?thesis by (simp add: mult.commute)
    qed
    ultimately have "1 / 2 < z - of_int \<lfloor>z\<rfloor>" by simp
    then have "r = \<lfloor>z\<rfloor> + 1" unfolding r_def by (rule round_half_even_up)
    with True show ?thesis by simp
  next
    case False
    with fz have "(n - 1) * Ki < \<lfloor>z\<rfloor>" by simp
    with round_half_even_bounds [of z] show ?thesis by (simp add: r_def)
  qed
  have "\<lceil>of_int r / K\<rceil> = n"
  proof (rule ceiling_unique)
    have "(of_int ((n - 1) * Ki) :: rat) < of_int r" using lower by (simp only: of_int_less_iff)
    then show "of_int n - 1 < of_int r / K"
      using Kpos by (simp add: K_def pos_less_divide_eq)
    have "(of_int r :: rat) \<le> of_int (n * Ki)" using upper by (simp only: of_int_le_iff)
    then show "of_int r / K \<le> of_int n"
      using Kpos by (simp add: K_def pos_divide_le_eq)
  qed
  then have "\<lceil>binary64 x\<rceil> = \<lceil>x\<rceil>" by (simp only: bz n_def)
  then show ?thesis by (simp only: x_def)
qed

lemma binary64_of_int:
  assumes "1 \<le> k" and "k < 2 ^ 53"
  shows "binary64 (of_int k) = of_int k"
proof -
  define e where "e = log2floor (nat \<lfloor>of_int k :: rat\<rfloor>)"
  have k1: "(1::rat) \<le> of_int k" using assms(1) by simp
  note b = floor_log2floor [OF k1, folded e_def]
  have "(of_int k :: rat) < 2 ^ 53" using assms(2) by (metis of_int_less_iff of_int_numeral of_int_power)
  with b(1) have "(2::rat) ^ e < 2 ^ 53" by (rule le_less_trans)
  then have "e < 53" by (rule power_less_imp_less_exp [rotated]) simp
  then have split52: "(2::rat) ^ 52 = 2 ^ e * 2 ^ (52 - e)" by (simp flip: power_add)
  have u: "ulp (of_int k) = 1 / of_int (2 ^ (52 - e))"
    unfolding ulp_def split52 by (simp add: e_def)
  have "of_int k / ulp (of_int k) = (of_int (k * 2 ^ (52 - e)) :: rat)"
    by (simp add: u)
  then have "round_half_even (of_int k / ulp (of_int k)) = k * 2 ^ (52 - e)"
    by (simp only: round_half_even_int)
  then show ?thesis
    by (simp add: binary64_def) (simp add: u)
qed

lemma binary64_ge_1:
  assumes "1 \<le> x"
  shows "1 \<le> binary64 x"
proof -
  define e where "e = log2floor (nat \<lfloor>x\<rfloor>)"
  note b = floor_log2floor [OF assms, folded e_def]
  have u: "ulp x = 2 ^ e / 2 ^ 52" by (simp add: ulp_def e_def)
  have "(2::rat) ^ 52 \<le> x / ulp x" using b(1) by (simp add: u field_simps)
  then have "of_int (2 ^ 52) \<le> x / ulp x" by simp
  then have "2 ^ 52 \<le> \<lfloor>x / ulp x\<rfloor>" by (simp only: le_floor_iff)
  with round_half_even_bounds [of "x / ulp x"] have "2 ^ 52 \<le> round_half_even (x / ulp x)"
    by linarith
  then have "(of_int (2 ^ 52) :: rat) \<le> of_int (round_half_even (x / ulp x))"
    by (simp only: of_int_le_iff)
  then have "(2::rat) ^ 52 * ulp x \<le> binary64 x"
    using ulp_pos [of x] by (simp add: binary64_def)
  moreover have "(2::rat) ^ 52 * ulp x = 2 ^ e" by (simp add: u)
  moreover have "(1::rat) \<le> 2 ^ e" by simp
  ultimately show ?thesis by linarith
qed

lemma normalize_timeout_above:
  assumes "1000 < t"
  shows "normalize_timeout (Some t) = Some (of_int \<lceil>binary64 (t / 1000)\<rceil>)"
  using assms by (simp add: normalize_timeout_def)

text \<open>Above \<open>2 ^ 53\<close> the quotient is rounded before \<^verbatim>\<open>Math.ceil\<close> sees it: the exact
  quotient of 5000000000000001024 and 1000 lies above 5000000000000001, the binary64
  quotient is 5000000000000001.\<close>

lemma binary64_rounded: "binary64 (5000000000000001024 / 1000) = 5000000000000001"
proof -
  let ?x = "5000000000000001024 / 1000 :: rat"
  have fl: "\<lfloor>?x\<rfloor> = 5000000000000001" by (simp add: floor_eq_iff)
  have lg: "log2floor 5000000000000001 = 52" by (simp add: log2floor.simps)
  have u: "ulp ?x = 1" unfolding ulp_def fl by (simp add: lg)
  have r: "round_half_even ?x = 5000000000000001"
    unfolding round_half_even_def Let_def fl by simp
  have "binary64 ?x = of_int (round_half_even (?x / ulp ?x)) * ulp ?x" by (rule binary64_def)
  also have "\<dots> = of_int (round_half_even ?x)" by (simp only: u div_by_1 mult_1_right)
  also have "\<dots> = 5000000000000001" by (simp only: r of_int_numeral)
  finally show ?thesis .
qed

lemma normalize_timeout_rounded:
  "normalize_timeout (Some 5000000000000001024) = Some 5000000000000001"
proof -
  have "(1000::rat) < 5000000000000001024" by simp
  from normalize_timeout_above [OF this] show ?thesis
    by (simp only: binary64_rounded ceiling_numeral of_int_numeral)
qed

lemma normalize_timeout_exact:
  assumes "binary64 t = t" and "1000 < t" and "t \<le> 2 ^ 53"
  shows "normalize_timeout (Some t) = Some (of_int \<lceil>t / 1000\<rceil>)"
  using assms by (simp add: normalize_timeout_def ceiling_binary64_quotient)

lemma normalize_timeout_int:
  assumes "1000 < k" and "k < 2 ^ 53"
  shows "normalize_timeout (Some (of_int k)) = Some (of_int \<lceil>of_int k / 1000 :: rat\<rceil>)"
proof (rule normalize_timeout_exact)
  show "binary64 (of_int k) = of_int k" using assms by (intro binary64_of_int) simp_all
  show "(1000::rat) < of_int k" using assms(1) by simp
  have "(of_int k :: rat) < 2 ^ 53" using assms(2) by (metis of_int_less_iff of_int_numeral of_int_power)
  then show "(of_int k :: rat) \<le> 2 ^ 53" by simp
qed

lemma normalize_timeout_5000: "normalize_timeout (Some 5000) = Some 5"
  using normalize_timeout_int [of 5000] by simp

lemma normalize_timeout_2000: "normalize_timeout (Some 2000) = Some 2"
  using normalize_timeout_int [of 2000] by simp

subsection \<open>C3: the timeout heuristic\<close>

lemma validate_timeout:
  assumes "executionRequestSchema_validate (r\<lparr>req_timeout := None\<rparr>) = Inr (language, code, input, d)"
  shows "executionRequestSchema_validate (r\<lparr>req_timeout := Some t\<rparr>) =
           (if t > MAX_SAFE_INTEGER \<or> t < - MAX_SAFE_INTEGER then Inl TimeoutUnsafe
            else if t < 1 then Inl TimeoutTooSmall
            else Inr (language, code, input, t))"
    and "executionRequestSchema_validate (r\<lparr>req_timeout := None\<rparr>) = Inr (language, code, input, 10)"
  using assms
  by (auto simp: executionRequestSchema_validate_def split: option.splits if_splits)

lemma validate_small_timeout:
  assumes "t < 1"
  shows "\<exists>err. executionRequestSchema_validate (r\<lparr>req_timeout := Some t\<rparr>) = Inl err"
  using assms
  by (auto simp: executionRequestSchema_validate_def MAX_SAFE_INTEGER_def split: option.splits)

lemma executeCode_accepts:
  assumes "executionRequestSchema_validate (r\<lparr>req_timeout := normalize_timeout (req_timeout r)\<rparr>)
           = Inr (language, code, input, timeout)"
  shows "executeCode s now executionId r =
           (Inr [(''executionId'', JString executionId), (''status'', JString ''pending''),
                 (''message'', JString ''Code execution started'')],
            storeExecution s executionId (new_execution executionId language code input timeout now),
            Some (executionId, language, code, input, timeout))"
  using assms by (simp add: executeCode_def)

lemma executeCode_rejects:
  assumes "executionRequestSchema_validate (r\<lparr>req_timeout := normalize_timeout (req_timeout r)\<rparr>)
           = Inl err"
  shows "executeCode s now executionId r = (Inl (ValidationError err), s, None)"
  using assms by (simp add: executeCode_def)

text \<open>
  Claim C3. Lines 250 to 253 replace every supplied timeout above 1000 by the ceiling of
  the quotient of the value and 1000, as JavaScript computes it, in binary64, and leave
  every other value as it is. For a binary64 value up to \<open>2 ^ 53\<close>, as every number of a
  JSON body in that range is, this is the ceiling of value/1000. For a request that is
  accepted when its timeout is left out: a supplied value above 1000 makes that ceiling
  the timeout of the record and of the task, as long as it is in the safe integer range
  of Joi's number type, which it is for every value up to \<open>2 ^ 53\<close>; a value from 1 to
  1000 is used as it is; with no timeout the record and the task get 10. A supplied value
  below 1 is rejected whatever the rest of the request is: \<^const>\<open>executeCode\<close> throws a
  validation error, writes nothing and starts no task.
\<close>

theorem timeout_normalization:
  "(1000 < t \<longrightarrow> normalize_timeout (Some t) = Some (of_int \<lceil>binary64 (t / 1000)\<rceil>))
   \<and> (binary64 t = t \<and> 1000 < t \<and> t \<le> 2 ^ 53 \<longrightarrow>
        normalize_timeout (Some t) = Some (of_int \<lceil>t / 1000\<rceil>))
   \<and> (t \<le> 1000 \<longrightarrow> normalize_timeout (Some t) = Some t)
   \<and> (executionRequestSchema_validate (r\<lparr>req_timeout := None\<rparr>) = Inr (language, code, input, d) \<longrightarrow>
        (req_timeout r = Some t \<and> 1000 < t
           \<and> of_int \<lceil>binary64 (t / 1000)\<rceil> \<le> MAX_SAFE_INTEGER \<longrightarrow>
           executeCode s now executionId r =
             (Inr [(''executionId'', JString executionId), (''status'', JString ''pending''),
                   (''message'', JString ''Code execution started'')],
              storeExecution s executionId
                (new_execution executionId language code input
                   (of_int \<lceil>binary64 (t / 1000)\<rceil>) now),
              Some (executionId, language, code, input, of_int \<lceil>binary64 (t / 1000)\<rceil>)))
      \<and> (req_timeout r = Some t \<and> binary64 t = t \<and> 1000 < t \<and> t \<le> 2 ^ 53 \<longrightarrow>
           executeCode s now executionId r =
             (Inr [(''executionId'', JString executionId), (''status'', JString ''pending''),
                   (''message'', JString ''Code execution started'')],
              storeExecution s executionId
                (new_execution executionId language code input (of_int \<lceil>t / 1000\<rceil>) now),
              Some (executionId, language, code, input, of_int \<lceil>t / 1000\<rceil>)))
      \<and> (req_timeout r = Some t \<and> 1 \<le> t \<and> t \<le> 1000 \<longrightarrow>
           executeCode s now executionId r =
             (Inr [(''executionId'', JString executionId), (''status'', JString ''pending''),
                   (''message'', JString ''Code execution started'')],
              storeExecution s executionId (new_execution executionId language code input t now),
              Some (executionId, language, code, input, t)))
      \<and> (req_timeout r = None \<longrightarrow>
           executeCode s now executionId r =
             (Inr [(''executionId'', JString executionId), (''status'', JString ''pending''),
                   (''message'', JString ''Code execution started'')],
              storeExecution s executionId (new_execution executionId language code input 10 now),
              Some (executionId, language, code, input, 10))))
   \<and> (req_timeout r = Some t \<and> t < 1 \<longrightarrow>
        (\<exists>err. executeCode s now executionId r = (Inl (ValidationError err), s, None)))"
proof -
  have n0: "normalize_timeout (Some t) = Some (of_int \<lceil>binary64 (t / 1000)\<rceil>)" if "1000 < t"
    using that by (simp add: normalize_timeout_def)
  have n1: "normalize_timeout (Some t) = Some (of_int \<lceil>t / 1000\<rceil>)"
    if "binary64 t = t" "1000 < t" "t \<le> 2 ^ 53"
    using that by (rule normalize_timeout_exact)
  have n2: "normalize_timeout (Some t) = Some t" if "t \<le> 1000"
    using that by (simp add: normalize_timeout_def)
  have upd: "r\<lparr>req_timeout := req_timeout r\<rparr> = r" by simp
  {
    assume ok: "executionRequestSchema_validate (r\<lparr>req_timeout := None\<rparr>) = Inr (language, code, input, d)"
    have rounded: "executeCode s now executionId r =
             (Inr [(''executionId'', JString executionId), (''status'', JString ''pending''),
                   (''message'', JString ''Code execution started'')],
              storeExecution s executionId
                (new_execution executionId language code input
                   (of_int \<lceil>binary64 (t / 1000)\<rceil>) now),
              Some (executionId, language, code, input, of_int \<lceil>binary64 (t / 1000)\<rceil>))"
      if "req_timeout r = Some t" "1000 < t" "of_int \<lceil>binary64 (t / 1000)\<rceil> \<le> MAX_SAFE_INTEGER"
    proof -
      have "1 \<le> binary64 (t / 1000)" using that(2) by (intro binary64_ge_1) simp
      then have "1 \<le> \<lceil>binary64 (t / 1000)\<rceil>" by linarith
      then have pos: "(1::rat) \<le> of_int \<lceil>binary64 (t / 1000)\<rceil>"
        by (metis of_int_1 of_int_le_iff)
      have "executionRequestSchema_validate (r\<lparr>req_timeout := normalize_timeout (req_timeout r)\<rparr>)
            = Inr (language, code, input, of_int \<lceil>binary64 (t / 1000)\<rceil>)"
        using validate_timeout(1) [OF ok, of "of_int \<lceil>binary64 (t / 1000)\<rceil>"] that pos
        by (simp add: n0 MAX_SAFE_INTEGER_def)
      then show ?thesis by (rule executeCode_accepts)
    qed
    have big: "executeCode s now executionId r =
             (Inr [(''executionId'', JString executionId), (''status'', JString ''pending''),
                   (''message'', JString ''Code execution started'')],
              storeExecution s executionId
                (new_execution executionId language code input (of_int \<lceil>t / 1000\<rceil>) now),
              Some (executionId, language, code, input, of_int \<lceil>t / 1000\<rceil>))"
      if "req_timeout r = Some t" "binary64 t = t" "1000 < t" "t \<le> 2 ^ 53"
    proof -
      have pos: "(1::rat) \<le> of_int \<lceil>t / 1000\<rceil>"
      proof -
        have "0 < t / 1000" using that(3) by simp
        then have "0 < \<lceil>t / 1000\<rceil>" by linarith
        then have "1 \<le> \<lceil>t / 1000\<rceil>" by linarith
        then show ?thesis by (metis of_int_1 of_int_le_iff)
      qed
      have safe: "of_int \<lceil>t / 1000\<rceil> \<le> MAX_SAFE_INTEGER"
      proof -
        have "of_int \<lceil>t / 1000\<rceil> < t / 1000 + 1" by linarith
        also have "\<dots> \<le> 2 ^ 53 / 1000 + 1" using that(4) by simp
        also have "\<dots> \<le> MAX_SAFE_INTEGER" by (simp add: MAX_SAFE_INTEGER_def)
        finally show ?thesis by simp
      qed
      have "executionRequestSchema_validate (r\<lparr>req_timeout := normalize_timeout (req_timeout r)\<rparr>)
            = Inr (language, code, input, of_int \<lceil>t / 1000\<rceil>)"
        using validate_timeout(1) [OF ok, of "of_int \<lceil>t / 1000\<rceil>"] that(1) pos safe
        by (simp add: n1 [OF that(2,3,4)] MAX_SAFE_INTEGER_def)
      then show ?thesis by (rule executeCode_accepts)
    qed
    have mid: "executeCode s now executionId r =
             (Inr [(''executionId'', JString executionId), (''status'', JString ''pending''),
                   (''message'', JString ''Code execution started'')],
              storeExecution s executionId (new_execution executionId language code input t now),
              Some (executionId, language, code, input, t))"
      if "req_timeout r = Some t" "1 \<le> t" "t \<le> 1000"
    proof -
      have "executionRequestSchema_validate (r\<lparr>req_timeout := normalize_timeout (req_timeout r)\<rparr>)
            = Inr (language, code, input, t)"
        using validate_timeout(1) [OF ok, of t] that
        by (simp add: n2 MAX_SAFE_INTEGER_def)
      then show ?thesis by (rule executeCode_accepts)
    qed
    have absent: "executeCode s now executionId r =
             (Inr [(''executionId'', JString executionId), (''status'', JString ''pending''),
                   (''message'', JString ''Code execution started'')],
              storeExecution s executionId (new_execution executionId language code input 10 now),
              Some (executionId, language, code, input, 10))"
      if "req_timeout r = None"
    proof -
      have "executionRequestSchema_validate (r\<lparr>req_timeout := normalize_timeout (req_timeout r)\<rparr>)
            = Inr (language, code, input, 10)"
        using validate_timeout(2) [OF ok] that by (simp add: normalize_timeout_def)
      then show ?thesis by (rule executeCode_accepts)
    qed
    note rounded big mid absent
  }
  note accepted = this
  have low: "\<exists>err. executeCode s now executionId r = (Inl (ValidationError err), s, None)"
    if "req_timeout r = Some t" "t < 1"
  proof -
    from validate_small_timeout [OF that(2), of r] obtain err where
      "executionRequestSchema_validate (r\<lparr>req_timeout := Some t\<rparr>) = Inl err" by blast
    then have "executionRequestSchema_validate (r\<lparr>req_timeout := normalize_timeout (req_timeout r)\<rparr>)
               = Inl err"
      using that by (simp add: n2)
    then show ?thesis using executeCode_rejects by blast
  qed
  show ?thesis
    using n0 n1 n2 accepted low by blast
qed

theorem timeout_normalization_witness:
  "snd (snd (executeCode
       \<lparr>redisClient = False, redis_up = False, redis_db = Map.empty, memoryStorage = Map.empty\<rparr>
       ''T0'' ''e1''
       \<lparr>req_language = Some ''python'', req_code = Some ''print(1)'', req_input = None,
        req_timeout = Some 5000\<rparr>))
   = Some (''e1'', ''python'', ''print(1)'', None, 5)
   \<and> snd (snd (executeCode
       \<lparr>redisClient = False, redis_up = False, redis_db = Map.empty, memoryStorage = Map.empty\<rparr>
       ''T0'' ''e1''
       \<lparr>req_language = Some ''python'', req_code = Some ''print(1)'', req_input = None,
        req_timeout = Some 1001\<rparr>))
   = Some (''e1'', ''python'', ''print(1)'', None, 2)
   \<and> snd (snd (executeCode
       \<lparr>redisClient = False, redis_up = False, redis_db = Map.empty, memoryStorage = Map.empty\<rparr>
       ''T0'' ''e1''
       \<lparr>req_language = Some ''python'', req_code = Some ''print(1)'', req_input = None,
        req_timeout = Some 1000\<rparr>))
   = Some (''e1'', ''python'', ''print(1)'', None, 1000)
   \<and> snd (snd (executeCode
       \<lparr>redisClient = False, redis_up = False, redis_db = Map.empty, memoryStorage = Map.empty\<rparr>
       ''T0'' ''e1''
       \<lparr>req_language = Some ''python'', req_code = Some ''print(1)'', req_input = None,
        req_timeout = Some 999\<rparr>))
   = Some (''e1'', ''python'', ''print(1)'', None, 999)
   \<and> snd (snd (executeCode
       \<lparr>redisClient = False, redis_up = False, redis_db = Map.empty, memoryStorage = Map.empty\<rparr>
       ''T0'' ''e1''
       \<lparr>req_language = Some ''python'', req_code = Some ''print(1)'', req_input = None,
        req_timeout = None\<rparr>))
   = Some (''e1'', ''python'', ''print(1)'', None, 10)
   \<and> snd (snd (executeCode
       \<lparr>redisClient = False, redis_up = False, redis_db = Map.empty, memoryStorage = Map.empty\<rparr>
       ''T0'' ''e1''
       \<lparr>req_language = Some ''python'', req_code = Some ''print(1)'', req_input = None,
        req_timeout = Some (1 / 2)\<rparr>))
   = None
   \<and> snd (snd (executeCode
       \<lparr>redisClient = False, redis_up = False, redis_db = Map.empty, memoryStorage = Map.empty\<rparr>
       ''T0'' ''e1''
       \<lparr>req_language = Some ''python'', req_code = Some ''print(1)'', req_input = None,
        req_timeout = Some 5000000000000001024\<rparr>))
   = Some (''e1'', ''python'', ''print(1)'', None, 5000000000000001)"
proof -
  let ?s = "\<lparr>redisClient = False, redis_up = False, redis_db = Map.empty, memoryStorage = Map.empty\<rparr>"
  let ?r = "\<lambda>t. \<lparr>req_language = Some ''python'', req_code = Some ''print(1)'', req_input = None,
        req_timeout = t\<rparr>"
  have ok: "executionRequestSchema_validate ((?r t)\<lparr>req_timeout := None\<rparr>)
            = Inr (''python'', ''print(1)'', None, 10)" for t
    by (simp add: executionRequestSchema_validate_def)
  have d5000: "binary64 5000 = 5000" using binary64_of_int [of 5000] by simp
  have d1001: "binary64 1001 = 1001" using binary64_of_int [of 1001] by simp
  have big: "binary64 (625000000000000128 / 125) = 5000000000000001"
    using binary64_rounded by simp
  have c5000: "(of_int \<lceil>5000 / 1000 :: rat\<rceil> :: rat) = 5" by simp
  have c1001: "(of_int \<lceil>1001 / 1000 :: rat\<rceil> :: rat) = 2" by (simp add: ceiling_eq_iff)
  show ?thesis
    using
      timeout_normalization [where t = 5000 and r = "?r (Some 5000)" and language = "''python''"
        and code = "''print(1)''" and input = None and d = 10 and s = ?s and now = "''T0''"
        and executionId = "''e1''"]
      timeout_normalization [where t = 1001 and r = "?r (Some 1001)" and language = "''python''"
        and code = "''print(1)''" and input = None and d = 10 and s = ?s and now = "''T0''"
        and executionId = "''e1''"]
      timeout_normalization [where t = 1000 and r = "?r (Some 1000)" and language = "''python''"
        and code = "''print(1)''" and input = None and d = 10 and s = ?s and now = "''T0''"
        and executionId = "''e1''"]
      timeout_normalization [where t = 999 and r = "?r (Some 999)" and language = "''python''"
        and code = "''print(1)''" and input = None and d = 10 and s = ?s and now = "''T0''"
        and executionId = "''e1''"]
      timeout_normalization [where t = 0 and r = "?r None" and language = "''python''"
        and code = "''print(1)''" and input = None and d = 10 and s = ?s and now = "''T0''"
        and executionId = "''e1''"]
      timeout_normalization [where t = "1 / 2" and r = "?r (Some (1 / 2))" and language = "''python''"
        and code = "''print(1)''" and input = None and d = 10 and s = ?s and now = "''T0''"
        and executionId = "''e1''"]
      timeout_normalization [where t = 5000000000000001024 and r = "?r (Some 5000000000000001024)"
        and language = "''python''" and code = "''print(1)''" and input = None and d = 10
        and s = ?s and now = "''T0''" and executionId = "''e1''"]
      ok c5000 c1001 d5000 d1001 big
    by (auto simp: MAX_SAFE_INTEGER_def)
qed

subsection \<open>C6: a request that fails validation leaves no record\<close>

lemma validate_rejects:
  assumes "req_language r \<notin> Some ` set [''javascript'', ''python'', ''java'', ''cpp'', ''c'']
           \<or> (\<exists>code. req_code r = Some code \<and> length code > 50000)"
  shows "\<exists>err. executionRequestSchema_validate (r\<lparr>req_timeout := t\<rparr>) = Inl err"
  using assms
  by (auto simp: executionRequestSchema_validate_def split: option.splits)

text \<open>
  Claim C6. When the language of a request is absent or is not one of javascript, python,
  java, cpp and c, or when its code is longer than 50000 characters, \<^const>\<open>executeCode\<close>
  throws a validation error before anything else happens: the store is the one it was
  given and no task is started, so the submission leaves the service as it was and no
  record of it, pending or other, can ever be read.
\<close>

theorem invalid_request_leaves_no_record:
  assumes "req_language r \<notin> Some ` set [''javascript'', ''python'', ''java'', ''cpp'', ''c'']
           \<or> (\<exists>code. req_code r = Some code \<and> length code > 50000)"
  shows "(\<exists>err. executeCode s now executionId r = (Inl (ValidationError err), s, None))
         \<and> apply_event sv (Submit now executionId r) = sv"
proof -
  from validate_rejects [OF assms] obtain err where
    "executionRequestSchema_validate (r\<lparr>req_timeout := normalize_timeout (req_timeout r)\<rparr>) = Inl err"
    by blast
  then have rej: "executeCode s' now executionId r = (Inl (ValidationError err), s', None)" for s'
    by (rule executeCode_rejects)
  then show ?thesis by simp
qed

theorem invalid_request_leaves_no_record_witness:
  "executeCode
     \<lparr>redisClient = False, redis_up = False, redis_db = Map.empty, memoryStorage = Map.empty\<rparr>
     ''T0'' ''e1''
     \<lparr>req_language = Some ''ruby'', req_code = Some ''puts 1'', req_input = None,
      req_timeout = Some 10\<rparr>
   = (Inl (ValidationError LanguageNotAllowed),
      \<lparr>redisClient = False, redis_up = False, redis_db = Map.empty, memoryStorage = Map.empty\<rparr>,
      None)
   \<and> executeCode
     \<lparr>redisClient = False, redis_up = False, redis_db = Map.empty, memoryStorage = Map.empty\<rparr>
     ''T0'' ''e1''
     \<lparr>req_language = Some ''python'', req_code = Some (replicate 50001 CHR ''x''),
      req_input = None, req_timeout = Some 10\<rparr>
   = (Inl (ValidationError CodeTooLong),
      \<lparr>redisClient = False, redis_up = False, redis_db = Map.empty, memoryStorage = Map.empty\<rparr>,
      None)
   \<and> getExecutionStatus
       (the_store (apply_event (initial False False)
          (Submit ''T0'' ''e1''
             \<lparr>req_language = Some ''ruby'', req_code = Some ''puts 1'', req_input = None,
              req_timeout = Some 10\<rparr>)))
       ''e1''
     = Inl ''Failed to get execution status: Execution not found''"
proof -
  let ?s = "\<lparr>redisClient = False, redis_up = False, redis_db = Map.empty, memoryStorage = Map.empty\<rparr>"
  let ?ruby = "\<lparr>req_language = Some ''ruby'', req_code = Some ''puts 1'', req_input = None,
      req_timeout = Some 10\<rparr>"
  let ?long = "\<lparr>req_language = Some ''python'', req_code = Some (replicate 50001 CHR ''x''),
      req_input = None, req_timeout = Some 10\<rparr>"
  have h1: "req_language ?ruby \<notin> Some ` set [''javascript'', ''python'', ''java'', ''cpp'', ''c'']
           \<or> (\<exists>code. req_code ?ruby = Some code \<and> length code > 50000)"
    by simp
  have h2: "req_language ?long \<notin> Some ` set [''javascript'', ''python'', ''java'', ''cpp'', ''c'']
           \<or> (\<exists>code. req_code ?long = Some code \<and> length code > 50000)"
    by simp
  have e1: "fst (executeCode ?s ''T0'' ''e1'' ?ruby) = Inl (ValidationError LanguageNotAllowed)"
    by (simp add: executeCode_def executionRequestSchema_validate_def)
  have e2: "fst (executeCode ?s ''T0'' ''e1'' ?long) = Inl (ValidationError CodeTooLong)"
    by (simp add: executeCode_def executionRequestSchema_validate_def normalize_timeout_def
        MAX_SAFE_INTEGER_def)
  show ?thesis
    using invalid_request_leaves_no_record [OF h1, of ?s "''T0''" "''e1''" "initial False False"]
      invalid_request_leaves_no_record [OF h2, of ?s "''T0''" "''e1''" "initial False False"]
      e1 e2
    by (auto simp: getExecutionStatus_def getExecution_def initial_def)
qed

subsection \<open>C2: the fields of an execution record\<close>

lemma getExecution_storeExecution:
  "fst (getExecution (storeExecution s executionId execution) executionId) =
     Some (if redisClient s \<and> redis_up s then JSON_stringify execution else execution)"
  by (simp add: getExecution_def storeExecution_def)

text \<open>
  Claim C2 fails on the code: the record that \<^const>\<open>executeCode\<close> creates has no property
  \<^verbatim>\<open>timeoutSeconds\<close>. For the request with language python, code \<^verbatim>\<open>print(1)\<close> and timeout
  5000 on an empty in-memory store, the status lookup returns a record whose properties
  are id, status, language, code, input, timeout, startTime, endTime, output and error;
  reading \<^verbatim>\<open>timeoutSeconds\<close> gives \<^verbatim>\<open>undefined\<close>, and the normalized deadline 5 is the
  value of \<^verbatim>\<open>timeout\<close>.
\<close>

theorem execution_record_fields_counterexample:
  "map_sum id (\<lambda>execution. (map fst execution, get_prop execution ''timeoutSeconds'',
                             get_prop execution ''timeout''))
     (getExecutionStatus
        (fst (snd (executeCode
           \<lparr>redisClient = False, redis_up = False, redis_db = Map.empty, memoryStorage = Map.empty\<rparr>
           ''T0'' ''e1''
           \<lparr>req_language = Some ''python'', req_code = Some ''print(1)'', req_input = None,
            req_timeout = Some 5000\<rparr>)))
        ''e1'')
   = Inr ([''id'', ''status'', ''language'', ''code'', ''input'', ''timeout'', ''startTime'',
           ''endTime'', ''output'', ''error''],
          JUndefined, JNumber 5)"
  by (simp add: executeCode_def executionRequestSchema_validate_def normalize_timeout_5000
      MAX_SAFE_INTEGER_def getExecutionStatus_def getExecution_def storeExecution_def
      new_execution_def get_prop_def)

text \<open>
  Claim C2 as amended. For every request that passes validation, the record that
  \<^const>\<open>executeCode\<close> creates and that the status lookup returns has the properties id,
  status, language, code, input, timeout, startTime, endTime, output and error, in this
  order, and no property \<^verbatim>\<open>timeoutSeconds\<close>. The property \<^verbatim>\<open>timeout\<close> holds the
  normalized deadline, status is \<^verbatim>\<open>pending\<close>, and endTime, output and error are
  \<^verbatim>\<open>null\<close>. The input of a request without input is \<^verbatim>\<open>undefined\<close>, and a record read
  back from Redis leaves that property out.
\<close>

theorem execution_record_fields:
  assumes "executionRequestSchema_validate (r\<lparr>req_timeout := normalize_timeout (req_timeout r)\<rparr>)
           = Inr (language, code, input, timeout)"
  shows "\<exists>execution.
           getExecutionStatus (fst (snd (executeCode s now executionId r))) executionId = Inr execution
           \<and> map fst execution =
               (if redisClient s \<and> redis_up s \<and> input = None then
                  [''id'', ''status'', ''language'', ''code'', ''timeout'', ''startTime'',
                   ''endTime'', ''output'', ''error'']
                else
                  [''id'', ''status'', ''language'', ''code'', ''input'', ''timeout'', ''startTime'',
                   ''endTime'', ''output'', ''error''])
           \<and> get_prop execution ''timeoutSeconds'' = JUndefined
           \<and> get_prop execution ''timeout'' = JNumber timeout
           \<and> get_prop execution ''id'' = JString executionId
           \<and> get_prop execution ''status'' = JString ''pending''
           \<and> get_prop execution ''language'' = JString language
           \<and> get_prop execution ''code'' = JString code
           \<and> get_prop execution ''input'' = (case input of None \<Rightarrow> JUndefined | Some i \<Rightarrow> JString i)
           \<and> get_prop execution ''startTime'' = JString now
           \<and> get_prop execution ''endTime'' = JNull
           \<and> get_prop execution ''output'' = JNull
           \<and> get_prop execution ''error'' = JNull"
proof -
  let ?e = "new_execution executionId language code input timeout now"
  have st: "fst (snd (executeCode s now executionId r)) = storeExecution s executionId ?e"
    by (simp add: executeCode_accepts [OF assms])
  have got: "getExecutionStatus (storeExecution s executionId ?e) executionId =
             Inr (if redisClient s \<and> redis_up s then JSON_stringify ?e else ?e)"
    by (simp add: getExecutionStatus_def getExecution_storeExecution)
  show ?thesis
    unfolding st got
    by (cases input) (simp_all add: new_execution_def JSON_stringify_def get_prop_def)
qed

theorem execution_record_fields_witness:
  "\<exists>execution.
     getExecutionStatus
        (fst (snd (executeCode
           \<lparr>redisClient = True, redis_up = True, redis_db = Map.empty, memoryStorage = Map.empty\<rparr>
           ''T0'' ''e1''
           \<lparr>req_language = Some ''python'', req_code = Some ''print(1)'', req_input = Some ''42'',
            req_timeout = Some 5000\<rparr>)))
        ''e1'' = Inr execution
     \<and> map fst execution =
          [''id'', ''status'', ''language'', ''code'', ''input'', ''timeout'', ''startTime'',
           ''endTime'', ''output'', ''error'']
     \<and> get_prop execution ''timeout'' = JNumber 5
     \<and> get_prop execution ''input'' = JString ''42''"
proof -
  let ?r = "\<lparr>req_language = Some ''python'', req_code = Some ''print(1)'', req_input = Some ''42'',
            req_timeout = Some 5000\<rparr>"
  have ok: "executionRequestSchema_validate (?r\<lparr>req_timeout := normalize_timeout (req_timeout ?r)\<rparr>)
            = Inr (''python'', ''print(1)'', Some ''42'', 5)"
    by (simp add: executionRequestSchema_validate_def normalize_timeout_5000 MAX_SAFE_INTEGER_def)
  show ?thesis
    using execution_record_fields [OF ok,
        of "\<lparr>redisClient = True, redis_up = True, redis_db = Map.empty, memoryStorage = Map.empty\<rparr>"
           "''T0''" "''e1''"]
    by auto
qed

subsection \<open>Writing the record back\<close>

lemma get_prop_JSON_stringify_update:
  "v \<noteq> JUndefined \<Longrightarrow>
   get_prop (JSON_stringify (AList.update k v obj)) k' =
     (if k' = k then v else get_prop (JSON_stringify obj) k')"
  by (induction obj) (auto simp: JSON_stringify_def get_prop_def)

lemma runCode_result:
  assumes "getExecution s executionId = (Some e, shared)"
    and "fst (runCode_body docker utf8 now (Some e) language code input timeout) = Inr e'"
  shows "getExecutionStatus (fst (runCode docker utf8 now s executionId language code input timeout))
           executionId =
         Inr (if redisClient s \<and> redis_up s then JSON_stringify e' else e')"
  using assms
  by (cases "runCode_body docker utf8 now (Some e) language code input timeout")
     (auto simp: runCode_def runCode_store_def getExecutionStatus_def getExecution_def
        storeExecution_def split: if_splits)

subsection \<open>C9: the input never reaches the container\<close>

lemma runCode_body_calls:
  "snd (runCode_body docker utf8 now (Some e1) language code input1 timeout1) =
   snd (runCode_body docker utf8 now (Some e2) language code input2 timeout2)"
  by (auto simp: runCode_body_def runCode_catch_def Let_def split: option.splits outcome.splits prod.splits)

text \<open>
  Claim C9. The options given to \<^verbatim>\<open>createContainer\<close> are computed from the language
  configuration and the code alone: the command is \<^verbatim>\<open>sh -c\<close> with the \<^verbatim>\<open>echo\<close> of the
  quoted code into the source file followed by the run command of the language, and the
  options attach stdout and stderr only. Two runs that differ only in the input (and in
  the record, which holds the input) make the same calls to the engine with the same
  arguments, the first of them \<^verbatim>\<open>createContainer\<close> with these options, and leave the
  function in the same way; no call takes the input. What the standard input of the
  program is inside the container is outside this model.
\<close>

theorem input_never_reaches_container:
  "snd (runCode_body docker utf8 now (Some e1) language code input1 timeout) =
   snd (runCode_body docker utf8 now (Some e2) language code input2 timeout)
   \<and> (case LANGUAGE_CONFIG language of
        None \<Rightarrow> snd (runCode_body docker utf8 now (Some e1) language code input1 timeout) = []
      | Some config \<Rightarrow>
          hd (snd (runCode_body docker utf8 now (Some e1) language code input1 timeout)) =
            CreateContainer
              \<lparr>Image = image config,
               Cmd = [''sh'', ''-c'',
                      ''echo '' @ [CHR 0x27] @ replace_quotes code @ [CHR 0x27] @ '' > main''
                      @ extension config @ '' && ''
                      @ runCommand config (''main'' @ extension config)],
               WorkingDir = ''/app'',
               HostConfig =
                 \<lparr>Memory = 128 * 1024 * 1024, CpuQuota = 50000, NetworkMode = ''none'',
                  ReadonlyRootfs = True, Tmpfs = [(''/app'', ''rw,size=10m'')]\<rparr>,
               AttachStdout = True, AttachStderr = True\<rparr>)
   \<and> runCode docker utf8 now s executionId language code input1 timeout =
     runCode docker utf8 now s executionId language code input2 timeout"
proof -
  have body: "runCode_body docker utf8 now execution language code input1 timeout =
              runCode_body docker utf8 now execution language code input2 timeout" for execution
    by (simp add: runCode_body_def)
  have first: "case LANGUAGE_CONFIG language of
        None \<Rightarrow> snd (runCode_body docker utf8 now (Some e1) language code input1 timeout) = []
      | Some config \<Rightarrow>
          hd (snd (runCode_body docker utf8 now (Some e1) language code input1 timeout)) =
            CreateContainer (container_options config code)"
    by (auto simp: runCode_body_def runCode_catch_def Let_def
        split: option.splits outcome.splits prod.splits)
  show ?thesis
    using runCode_body_calls [of docker utf8 now e1 language code input1 timeout e2 input2 timeout]
      first body
    by (simp add: runCode_def container_options_def split: option.splits)
qed

theorem input_never_reaches_container_witness:
  "snd (runCode_body (\<lambda>opts. Throws ''no engine'') ascii ''T1'' (Some []) ''python'' ''print(1)''
          (Some ''first input'') 10)
   = snd (runCode_body (\<lambda>opts. Throws ''no engine'') ascii ''T1'' (Some []) ''python'' ''print(1)''
          (Some ''second input'') 10)
   \<and> hd (snd (runCode_body (\<lambda>opts. Throws ''no engine'') ascii ''T1'' (Some []) ''python''
          ''print(1)'' (Some ''first input'') 10))
   = CreateContainer
       \<lparr>Image = ''python:3.11-alpine'',
        Cmd = [''sh'', ''-c'',
               ''echo '' @ [CHR 0x27] @ ''print(1)'' @ [CHR 0x27] @ '' > main.py && python main.py''],
        WorkingDir = ''/app'',
        HostConfig =
          \<lparr>Memory = 134217728, CpuQuota = 50000, NetworkMode = ''none'',
           ReadonlyRootfs = True, Tmpfs = [(''/app'', ''rw,size=10m'')]\<rparr>,
        AttachStdout = True, AttachStderr = True\<rparr>"
  using input_never_reaches_container [where docker = "\<lambda>opts. Throws ''no engine''"
      and ?utf8.0 = ascii and now = "''T1''" and ?e1.0 = "[]" and ?e2.0 = "[]"
      and language = "''python''" and code = "''print(1)''" and ?input1.0 = "Some ''first input''"
      and ?input2.0 = "Some ''second input''" and timeout = 10 and executionId = "''e1''"
      and s = "\<lparr>redisClient = False, redis_up = False, redis_db = Map.empty,
                memoryStorage = Map.empty\<rparr>"]
  by (auto simp: LANGUAGE_CONFIG_def replace_quotes_def)

subsection \<open>C10: the exit code of the program does not fail the execution\<close>

lemma runCode_body_failed:
  assumes "fst (runCode_body docker utf8 now (Some e) language code input timeout) = Inr e'"
    and "get_prop e' ''status'' = JString ''failed''"
    and "LANGUAGE_CONFIG language = Some config"
  shows "(\<exists>m. docker (container_options config code) = Throws m)
         \<or> (\<exists>c. docker (container_options config code) = Returns c
                \<and> ((\<exists>m. start_outcome c = Throws m) \<or> timer_first c
                    \<or> (\<exists>m. wait_outcome c = Throws m) \<or> (\<exists>m. remove_outcome c = Throws m)))"
proof (cases "docker (container_options config code)")
  case (Throws m)
  then show ?thesis by simp
next
  case (Returns c)
  have "(\<exists>m. start_outcome c = Throws m) \<or> timer_first c
        \<or> (\<exists>m. wait_outcome c = Throws m) \<or> (\<exists>m. remove_outcome c = Throws m)"
  proof (rule ccontr)
    assume "\<not> ?thesis"
    then have ok: "start_outcome c = Returns ()" "\<not> timer_first c" "wait_outcome c = Returns ()"
      "remove_outcome c = Returns ()"
      by (metis outcome.exhaust old.unit.exhaust)+
    from runCode_body_completed [of language config docker code c "()" "()" "()" utf8 now e input timeout]
      assms Returns ok
    show False by (auto simp: get_prop_update)
  qed
  with Returns show ?thesis by simp
qed

text \<open>
  Claim C10. When the container is created and started, exits before the timer, its
  logs come back as a buffer that is not empty, and the container is removed, the record
  that \<^const>\<open>runCode\<close> stores has the status \<^verbatim>\<open>completed\<close>, the demultiplexed stdout as
  output and the demultiplexed stderr as error, whatever the exit code is, nonzero
  included. A record gets the status \<^verbatim>\<open>failed\<close> only when something threw:
  \<^verbatim>\<open>createContainer\<close>, \<^verbatim>\<open>start\<close>, \<^verbatim>\<open>wait\<close>, the timer, or the \<^verbatim>\<open>remove\<close> of the
  \<^verbatim>\<open>try\<close> block.
\<close>

theorem nonzero_exit_is_completed:
  "(getExecution s executionId = (Some e, shared)
      \<and> LANGUAGE_CONFIG language = Some config
      \<and> docker (container_options config code) = Returns c
      \<and> start_outcome c = Returns () \<and> \<not> timer_first c \<and> wait_outcome c = Returns ()
      \<and> logs_outcome c = Returns buf \<and> buf \<noteq> []
      \<and> inspect_outcome c = Returns ExitCode \<and> ExitCode \<noteq> 0
      \<and> remove_outcome c = Returns () \<longrightarrow>
      (\<exists>execution.
         getExecutionStatus (fst (runCode docker utf8 now s executionId language code input timeout))
           executionId = Inr execution
         \<and> get_prop execution ''status'' = JString ''completed''
         \<and> get_prop execution ''output'' = JString (stdout (parseDockerLogs utf8 buf))
         \<and> get_prop execution ''error'' = JString (stderr (parseDockerLogs utf8 buf))
         \<and> get_prop execution ''endTime'' = JString now))
   \<and> (fst (runCode_body docker utf8 now (Some e) language code input timeout) = Inr e'
      \<and> get_prop e' ''status'' = JString ''failed''
      \<and> LANGUAGE_CONFIG language = Some config \<longrightarrow>
      (\<exists>m. docker (container_options config code) = Throws m)
      \<or> (\<exists>c. docker (container_options config code) = Returns c
             \<and> ((\<exists>m. start_outcome c = Throws m) \<or> timer_first c
                 \<or> (\<exists>m. wait_outcome c = Throws m) \<or> (\<exists>m. remove_outcome c = Throws m))))"
proof -
  have completed: "\<exists>execution.
         getExecutionStatus (fst (runCode docker utf8 now s executionId language code input timeout))
           executionId = Inr execution
         \<and> get_prop execution ''status'' = JString ''completed''
         \<and> get_prop execution ''output'' = JString (stdout (parseDockerLogs utf8 buf))
         \<and> get_prop execution ''error'' = JString (stderr (parseDockerLogs utf8 buf))
         \<and> get_prop execution ''endTime'' = JString now"
    if h: "getExecution s executionId = (Some e, shared)" "LANGUAGE_CONFIG language = Some config"
      "docker (container_options config code) = Returns c"
      "start_outcome c = Returns ()" "\<not> timer_first c" "wait_outcome c = Returns ()"
      "logs_outcome c = Returns buf" "buf \<noteq> []" "remove_outcome c = Returns ()"
  proof -
    have out: "fst (getContainerOutput utf8 c) = parseDockerLogs utf8 buf"
      using h(7,8) by (simp add: getContainerOutput_def)
    have body: "fst (runCode_body docker utf8 now (Some e) language code input timeout) =
         Inr (AList.update ''endTime'' (JString now)
               (AList.update ''error'' (JString (stderr (fst (getContainerOutput utf8 c))))
                 (AList.update ''output'' (JString (stdout (fst (getContainerOutput utf8 c))))
                   (AList.update ''status'' (JString ''completed'') e))))"
      using runCode_body_completed [of language config docker code c "()" "()" "()" utf8 now e input timeout] h
      by simp
    show ?thesis
      unfolding runCode_result [OF h(1) body] out
      by (simp add: get_prop_update get_prop_JSON_stringify_update)
  qed
  show ?thesis
    using completed runCode_body_failed [of docker utf8 now e language code input timeout e' config]
    by blast
qed

theorem nonzero_exit_is_completed_witness:
  "getExecutionStatus
     (fst (runCode
        (\<lambda>opts. Returns \<lparr>start_outcome = Returns (), wait_outcome = Returns (),
           logs_outcome = Returns [2, 0, 0, 0, 0, 0, 0, 4, 111, 111, 112, 115],
           inspect_outcome = Returns 1, remove_outcome = Returns (), timer_first = False\<rparr>)
        ascii ''T1''
        \<lparr>redisClient = False, redis_up = False, redis_db = Map.empty,
         memoryStorage = [''e1'' \<mapsto> new_execution ''e1'' ''python'' ''boom'' None 10 ''T0'']\<rparr>
        ''e1'' ''python'' ''boom'' None 10))
     ''e1''
   = Inr [(''id'', JString ''e1''), (''status'', JString ''completed''),
          (''language'', JString ''python''), (''code'', JString ''boom''),
          (''input'', JUndefined), (''timeout'', JNumber 10), (''startTime'', JString ''T0''),
          (''endTime'', JString ''T1''), (''output'', JString ''''), (''error'', JString ''oops'')]"
proof -
  let ?c = "\<lparr>start_outcome = Returns (), wait_outcome = Returns (),
           logs_outcome = Returns [2, 0, 0, 0, 0, 0, 0, 4, 111, 111, 112, 115],
           inspect_outcome = Returns 1, remove_outcome = Returns (), timer_first = False\<rparr>"
  let ?e = "new_execution ''e1'' ''python'' ''boom'' None 10 ''T0''"
  let ?s = "\<lparr>redisClient = False, redis_up = False, redis_db = Map.empty,
         memoryStorage = [''e1'' \<mapsto> ?e]\<rparr>"
  have cfg: "LANGUAGE_CONFIG ''python'' \<noteq> None" by (simp add: LANGUAGE_CONFIG_def)
  then obtain config where config: "LANGUAGE_CONFIG ''python'' = Some config" by blast
  have get: "getExecution ?s ''e1'' = (Some ?e, True)" by (simp add: getExecution_def)
  have parsed: "parseDockerLogs ascii [2, 0, 0, 0, 0, 0, 0, 4, 111, 111, 112, 115]
                = \<lparr>stdout = '''', stderr = ''oops''\<rparr>"
    by (simp add: parseDockerLogs_def parse_frames.simps readUInt8_def readUInt32BE_def
        buffer_slice_def Let_def ascii_def trim_def isWhiteSpace_def
        char_of_def bit_iff_odd drop_bit_eq_div)
  have run: "getExecutionStatus
     (fst (runCode (\<lambda>opts. Returns ?c) ascii ''T1'' ?s ''e1'' ''python'' ''boom'' None 10)) ''e1''
     = Inr (AList.update ''endTime'' (JString ''T1'')
             (AList.update ''error'' (JString ''oops'')
               (AList.update ''output'' (JString '''')
                 (AList.update ''status'' (JString ''completed'') ?e))))"
    using runCode_body_completed [of "''python''" config "\<lambda>opts. Returns ?c" "''boom''" ?c
        "()" "()" "()" ascii "''T1''" ?e None 10] config
    by (simp add: runCode_result [OF get] getContainerOutput_def parsed)
  show ?thesis
    using nonzero_exit_is_completed [of ?s "''e1''" ?e True "''python''" config "\<lambda>opts. Returns ?c"
        "''boom''" ?c "[2, 0, 0, 0, 0, 0, 0, 4, 111, 111, 112, 115]" 1 ascii "''T1''" None 10]
      get config parsed run
    by (simp add: new_execution_def)
qed

subsection \<open>C8: the timeout path\<close>

lemma runCode_body_timeout:
  assumes "LANGUAGE_CONFIG language = Some config"
    and "docker (container_options config code) = Returns c"
    and "start_outcome c = Returns u"
    and "timer_first c"
  shows "runCode_body docker utf8 now (Some e) language code input timeout =
         (Inr (AList.update ''endTime'' (JString now)
                (AList.update ''error'' (JString ''Execution timeout'')
                  (AList.update ''status'' (JString ''failed'') e))),
          [CreateContainer (container_options config code), Start, Wait, Stop, Remove]
          @ (case wait_outcome c of
               Throws message \<Rightarrow> []
             | Returns _ \<Rightarrow> snd (getContainerOutput utf8 c)))"
  using assms by (simp add: runCode_body_def race_def runCode_catch_def)

lemma validated_language_config:
  assumes "executionRequestSchema_validate r = Inr (language, code, input, timeout)"
  shows "LANGUAGE_CONFIG language \<noteq> None"
  using assms
  by (auto simp: executionRequestSchema_validate_def LANGUAGE_CONFIG_def
      split: option.splits if_splits)

lemma getExecution_storeExecution_pair:
  "getExecution (storeExecution s executionId execution) executionId =
     (Some (if redisClient s \<and> redis_up s then JSON_stringify execution else execution),
      \<not> (redisClient s \<and> redis_up s))"
  by (simp add: getExecution_def storeExecution_def)

lemma storeExecution_flags:
  "redisClient (storeExecution s executionId execution) = redisClient s"
  "redis_up (storeExecution s executionId execution) = redis_up s"
  by (simp_all add: storeExecution_def)

lemma new_execution_output:
  "get_prop (new_execution executionId language code input timeout now) ''output'' = JNull"
  "get_prop (JSON_stringify (new_execution executionId language code input timeout now)) ''output''
   = JNull"
  "get_prop (JSON_stringify (JSON_stringify (new_execution executionId language code input timeout now)))
     ''output'' = JNull"
  by (cases input; simp add: new_execution_def JSON_stringify_def get_prop_def)+

text \<open>
  Claim C8. Take a request that passes validation and a container that is created and
  started, and let the timer fire before the wait for the exit and the collection of the
  output are done. Then the record that the status lookup returns after \<^const>\<open>runCode\<close> has
  the status \<^verbatim>\<open>failed\<close>, the fixed message \<^verbatim>\<open>Execution timeout\<close> as error, and the output
  \<^verbatim>\<open>null\<close> that it had when it was created. Nothing cancels the wait for the exit, so
  the logs may still be read once it returns, but what the container produced never
  reaches the record: every container that starts and loses the race to the timer gives
  the same record, whatever its logs, its exit code and its other outcomes are. For any
  record that \<^const>\<open>runCode\<close> reads, the timeout path sets status, error and endTime and
  leaves the output property as it was.
\<close>

theorem timeout_is_failed_without_output:
  assumes "executionRequestSchema_validate (r\<lparr>req_timeout := normalize_timeout (req_timeout r)\<rparr>)
           = Inr (language, code, input, timeout)"
    and "LANGUAGE_CONFIG language = Some config"
    and "docker (container_options config code) = Returns c"
    and "start_outcome c = Returns ()"
    and "timer_first c"
  shows "(\<exists>execution.
            getExecutionStatus
              (fst (runCode docker utf8 now' (fst (snd (executeCode s now executionId r)))
                      executionId language code input timeout))
              executionId = Inr execution
            \<and> get_prop execution ''status'' = JString ''failed''
            \<and> get_prop execution ''error'' = JString ''Execution timeout''
            \<and> get_prop execution ''output'' = JNull
            \<and> get_prop execution ''endTime'' = JString now')
         \<and> (\<forall>c'. start_outcome c' = Returns () \<and> timer_first c' \<longrightarrow>
                fst (runCode_body (\<lambda>opts. Returns c') utf8 now' (Some e) language code input timeout)
                = fst (runCode_body docker utf8 now' (Some e) language code input timeout))
         \<and> (\<exists>e'. fst (runCode_body docker utf8 now' (Some e) language code input timeout) = Inr e'
                \<and> get_prop e' ''status'' = JString ''failed''
                \<and> get_prop e' ''error'' = JString ''Execution timeout''
                \<and> get_prop e' ''output'' = get_prop e ''output''
                \<and> get_prop e' ''endTime'' = JString now')"
proof -
  let ?e0 = "new_execution executionId language code input timeout now"
  let ?s' = "storeExecution s executionId ?e0"
  let ?e = "if redisClient s \<and> redis_up s then JSON_stringify ?e0 else ?e0"
  note body = runCode_body_timeout [where docker = docker, OF assms(2,3,4,5)]
  have st: "fst (snd (executeCode s now executionId r)) = ?s'"
    by (simp add: executeCode_accepts [OF assms(1)])
  have get: "getExecution ?s' executionId = (Some ?e, \<not> (redisClient s \<and> redis_up s))"
    by (rule getExecution_storeExecution_pair)
  have "fst (runCode_body docker utf8 now' (Some ?e) language code input timeout) =
        Inr (AList.update ''endTime'' (JString now')
              (AList.update ''error'' (JString ''Execution timeout'')
                (AList.update ''status'' (JString ''failed'') ?e)))"
    by (simp only: body fst_conv)
  note res = runCode_result [OF get this]
  have stored: "\<exists>execution.
            getExecutionStatus
              (fst (runCode docker utf8 now' (fst (snd (executeCode s now executionId r)))
                      executionId language code input timeout))
              executionId = Inr execution
            \<and> get_prop execution ''status'' = JString ''failed''
            \<and> get_prop execution ''error'' = JString ''Execution timeout''
            \<and> get_prop execution ''output'' = JNull
            \<and> get_prop execution ''endTime'' = JString now'"
    unfolding st res
    by (simp add: storeExecution_flags get_prop_update get_prop_JSON_stringify_update
        new_execution_output)
  have same: "fst (runCode_body (\<lambda>opts. Returns c') utf8 now' (Some e) language code input timeout)
              = fst (runCode_body docker utf8 now' (Some e) language code input timeout)"
    if "start_outcome c' = Returns ()" "timer_first c'" for c'
    using runCode_body_timeout [of language config "\<lambda>opts. Returns c'" code c' "()" utf8 now' e
        input timeout] assms(2) that
    by (simp add: body)
  show ?thesis
    using stored same by (simp add: body get_prop_update)
qed

theorem timeout_is_failed_without_output_witness:
  "getExecutionStatus
     (fst (runCode
        (\<lambda>opts. Returns \<lparr>start_outcome = Returns (), wait_outcome = Returns (),
           logs_outcome = Returns [1, 0, 0, 0, 0, 0, 0, 2, 104, 105],
           inspect_outcome = Returns 0, remove_outcome = Returns (), timer_first = True\<rparr>)
        ascii ''T1''
        (fst (snd (executeCode
           \<lparr>redisClient = False, redis_up = False, redis_db = Map.empty, memoryStorage = Map.empty\<rparr>
           ''T0'' ''e1''
           \<lparr>req_language = Some ''python'', req_code = Some ''while True: pass'',
            req_input = None, req_timeout = Some 2000\<rparr>)))
        ''e1'' ''python'' ''while True: pass'' None 2))
     ''e1''
   = Inr [(''id'', JString ''e1''), (''status'', JString ''failed''),
          (''language'', JString ''python''), (''code'', JString ''while True: pass''),
          (''input'', JUndefined), (''timeout'', JNumber 2), (''startTime'', JString ''T0''),
          (''endTime'', JString ''T1''), (''output'', JNull),
          (''error'', JString ''Execution timeout'')]"
proof -
  let ?c = "\<lparr>start_outcome = Returns (), wait_outcome = Returns (),
           logs_outcome = Returns [1, 0, 0, 0, 0, 0, 0, 2, 104, 105],
           inspect_outcome = Returns 0, remove_outcome = Returns (), timer_first = True\<rparr>"
  let ?s = "\<lparr>redisClient = False, redis_up = False, redis_db = Map.empty, memoryStorage = Map.empty\<rparr>"
  let ?r = "\<lparr>req_language = Some ''python'', req_code = Some ''while True: pass'',
            req_input = None, req_timeout = Some 2000\<rparr>"
  let ?e0 = "new_execution ''e1'' ''python'' ''while True: pass'' None 2 ''T0''"
  have ok: "executionRequestSchema_validate (?r\<lparr>req_timeout := normalize_timeout (req_timeout ?r)\<rparr>)
            = Inr (''python'', ''while True: pass'', None, 2)"
    by (simp add: executionRequestSchema_validate_def normalize_timeout_2000 MAX_SAFE_INTEGER_def)
  have "LANGUAGE_CONFIG ''python'' \<noteq> None" by (simp add: LANGUAGE_CONFIG_def)
  then obtain config where config: "LANGUAGE_CONFIG ''python'' = Some config" by blast
  have st: "fst (snd (executeCode ?s ''T0'' ''e1'' ?r)) = storeExecution ?s ''e1'' ?e0"
    by (simp add: executeCode_accepts [OF ok])
  have get: "getExecution (storeExecution ?s ''e1'' ?e0) ''e1'' = (Some ?e0, True)"
    by (simp add: getExecution_storeExecution_pair)
  have body: "fst (runCode_body (\<lambda>opts. Returns ?c) ascii ''T1'' (Some ?e0) ''python''
                ''while True: pass'' None 2)
    = Inr (AList.update ''endTime'' (JString ''T1'')
            (AList.update ''error'' (JString ''Execution timeout'')
              (AList.update ''status'' (JString ''failed'') ?e0)))"
    using runCode_body_timeout [of "''python''" config "\<lambda>opts. Returns ?c" "''while True: pass''" ?c
        "()" ascii "''T1''" ?e0 None 2] config
    by simp
  show ?thesis
    using timeout_is_failed_without_output [of ?r "''python''" "''while True: pass''" None 2 config
        "\<lambda>opts. Returns ?c" ?c ascii "''T1''" ?s "''T0''" "''e1''" ?e0] ok config
    unfolding st runCode_result [OF get body]
    by (simp add: storeExecution_def new_execution_def)
qed

subsection \<open>C1: a failure of the cleanup after a normal exit\<close>

lemma runCode_body_remove_throws:
  assumes "LANGUAGE_CONFIG language = Some config"
    and "docker (container_options config code) = Returns c"
    and "start_outcome c = Returns u1"
    and "\<not> timer_first c"
    and "wait_outcome c = Returns u2"
    and "remove_outcome c = Throws message"
  shows "runCode_body docker utf8 now (Some e) language code input timeout =
         (Inr (AList.update ''endTime'' (JString now)
                (AList.update ''error'' (JString message)
                  (AList.update ''status'' (JString ''failed'') e))),
          [CreateContainer (container_options config code), Start, Wait]
          @ snd (getContainerOutput utf8 c) @ [Remove, Stop, Remove])"
  using assms by (simp add: runCode_body_def race_completes runCode_catch_def)

text \<open>
  Claim C1 does not hold of the code. The \<^verbatim>\<open>remove\<close> after a normal exit is awaited inside
  the \<^verbatim>\<open>try\<close> block, before the record is set to \<^verbatim>\<open>completed\<close>. Here the container
  exits, its logs hold one stdout frame with the payload \<^verbatim>\<open>hi\<close>, and \<^verbatim>\<open>remove\<close> throws
  an error with the message \<^verbatim>\<open>removal of container is already in progress\<close>. The stored
  record has the status \<^verbatim>\<open>failed\<close>, the message of the cleanup error as error and no
  output, and \<^verbatim>\<open>remove\<close> is called a second time from the \<^verbatim>\<open>catch\<close> clause, where its
  failure would only be logged.
\<close>

theorem remove_failure_overrides_status:
  "getExecutionStatus
     (fst (runCode
        (\<lambda>opts. Returns \<lparr>start_outcome = Returns (), wait_outcome = Returns (),
           logs_outcome = Returns [1, 0, 0, 0, 0, 0, 0, 2, 104, 105],
           inspect_outcome = Returns 0,
           remove_outcome = Throws ''removal of container is already in progress'',
           timer_first = False\<rparr>)
        ascii ''T1''
        \<lparr>redisClient = False, redis_up = False, redis_db = Map.empty,
         memoryStorage = [''e1'' \<mapsto> new_execution ''e1'' ''python'' ''print(1)'' None 10 ''T0'']\<rparr>
        ''e1'' ''python'' ''print(1)'' None 10))
     ''e1''
   = Inr [(''id'', JString ''e1''), (''status'', JString ''failed''),
          (''language'', JString ''python''), (''code'', JString ''print(1)''),
          (''input'', JUndefined), (''timeout'', JNumber 10), (''startTime'', JString ''T0''),
          (''endTime'', JString ''T1''), (''output'', JNull),
          (''error'', JString ''removal of container is already in progress'')]
   \<and> map (\<lambda>call. case call of CreateContainer opts \<Rightarrow> ''createContainer'' | Start \<Rightarrow> ''start''
            | Wait \<Rightarrow> ''wait'' | Logs \<Rightarrow> ''logs'' | Inspect \<Rightarrow> ''inspect'' | Stop \<Rightarrow> ''stop''
            | Remove \<Rightarrow> ''remove'')
       (snd (snd (runCode
        (\<lambda>opts. Returns \<lparr>start_outcome = Returns (), wait_outcome = Returns (),
           logs_outcome = Returns [1, 0, 0, 0, 0, 0, 0, 2, 104, 105],
           inspect_outcome = Returns 0,
           remove_outcome = Throws ''removal of container is already in progress'',
           timer_first = False\<rparr>)
        ascii ''T1''
        \<lparr>redisClient = False, redis_up = False, redis_db = Map.empty,
         memoryStorage = [''e1'' \<mapsto> new_execution ''e1'' ''python'' ''print(1)'' None 10 ''T0'']\<rparr>
        ''e1'' ''python'' ''print(1)'' None 10)))
   = [''createContainer'', ''start'', ''wait'', ''logs'', ''remove'', ''stop'', ''remove'']"
proof -
  let ?c = "\<lparr>start_outcome = Returns (), wait_outcome = Returns (),
           logs_outcome = Returns [1, 0, 0, 0, 0, 0, 0, 2, 104, 105],
           inspect_outcome = Returns 0,
           remove_outcome = Throws ''removal of container is already in progress'',
           timer_first = False\<rparr>"
  let ?e = "new_execution ''e1'' ''python'' ''print(1)'' None 10 ''T0''"
  let ?s = "\<lparr>redisClient = False, redis_up = False, redis_db = Map.empty,
         memoryStorage = [''e1'' \<mapsto> ?e]\<rparr>"
  have "LANGUAGE_CONFIG ''python'' \<noteq> None" by (simp add: LANGUAGE_CONFIG_def)
  then obtain config where config: "LANGUAGE_CONFIG ''python'' = Some config" by blast
  have get: "getExecution ?s ''e1'' = (Some ?e, True)" by (simp add: getExecution_def)
  have body: "runCode_body (\<lambda>opts. Returns ?c) ascii ''T1'' (Some ?e) ''python'' ''print(1)'' None 10
    = (Inr (AList.update ''endTime'' (JString ''T1'')
            (AList.update ''error'' (JString ''removal of container is already in progress'')
              (AList.update ''status'' (JString ''failed'') ?e))),
       [CreateContainer (container_options config ''print(1)''), Start, Wait, Logs, Remove, Stop, Remove])"
    using runCode_body_remove_throws [of "''python''" config "\<lambda>opts. Returns ?c" "''print(1)''" ?c
        "()" "()" "''removal of container is already in progress''" ascii "''T1''" ?e None 10] config
    by (simp add: getContainerOutput_def)
  have calls: "snd (snd (runCode (\<lambda>opts. Returns ?c) ascii ''T1'' ?s ''e1'' ''python'' ''print(1)'' None 10))
    = [CreateContainer (container_options config ''print(1)''), Start, Wait, Logs, Remove, Stop, Remove]"
    by (simp add: runCode_def get body)
  have fbody: "fst (runCode_body (\<lambda>opts. Returns ?c) ascii ''T1'' (Some ?e) ''python'' ''print(1)'' None 10)
    = Inr (AList.update ''endTime'' (JString ''T1'')
            (AList.update ''error'' (JString ''removal of container is already in progress'')
              (AList.update ''status'' (JString ''failed'') ?e)))"
    by (simp add: body)
  show ?thesis
    unfolding calls runCode_result [OF get fbody]
    by (simp add: new_execution_def)
qed

subsection \<open>C7: one terminal write for each record\<close>

lemma storeExecution_memory:
  "memoryStorage (storeExecution s executionId e) k =
     (if k = executionId \<and> \<not> (redisClient s \<and> redis_up s) then Some e else memoryStorage s k)"
  by (simp add: storeExecution_def)

lemma storeExecution_redis:
  "redis_db (storeExecution s executionId e) k =
     (if k = ''execution:'' @ executionId \<and> redisClient s \<and> redis_up s then Some (JSON_stringify e)
      else redis_db s k)"
  by (simp add: storeExecution_def)

lemma runCode_store_memory:
  "memoryStorage (runCode_store s executionId shared (Inr e)) k =
     (if k = executionId \<and> (shared \<or> \<not> (redisClient s \<and> redis_up s)) then Some e
      else memoryStorage s k)"
  by (simp add: runCode_store_def storeExecution_def)

lemma runCode_store_redis:
  "redis_db (runCode_store s executionId shared (Inr e)) k =
     (if k = ''execution:'' @ executionId \<and> redisClient s \<and> redis_up s then Some (JSON_stringify e)
      else redis_db s k)"
  by (simp add: runCode_store_def storeExecution_def)

lemma runCode_store_Inl: "runCode_store s executionId shared (Inl err) = s"
  by (simp add: runCode_store_def)

lemma new_execution_pending:
  "\<not> terminal (new_execution executionId language code input timeout now)"
  "\<not> terminal (JSON_stringify (new_execution executionId language code input timeout now))"
  "consistent (new_execution executionId language code input timeout now)"
  "consistent (JSON_stringify (new_execution executionId language code input timeout now))"
  by (cases input; simp add: consistent_def terminal_def new_execution_def JSON_stringify_def get_prop_def)+

lemma runCode_catch_terminal:
  assumes "fst (runCode_catch now execution message container calls) = Inr e'"
  shows "terminal e' \<and> consistent e' \<and> terminal (JSON_stringify e') \<and> consistent (JSON_stringify e')"
  using assms
  by (auto simp: runCode_catch_def terminal_def consistent_def get_prop_update
      get_prop_JSON_stringify_update split: option.splits)

lemma runCode_body_terminal:
  assumes "fst (runCode_body docker utf8 now execution language code input timeout) = Inr e'"
  shows "terminal e' \<and> consistent e' \<and> terminal (JSON_stringify e') \<and> consistent (JSON_stringify e')"
proof -
  have completed: "terminal e \<and> consistent e \<and> terminal (JSON_stringify e) \<and> consistent (JSON_stringify e)"
    if "e = AList.update ''endTime'' (JString now)
              (AList.update ''error'' (JString err)
                (AList.update ''output'' (JString out)
                  (AList.update ''status'' (JString ''completed'') e0)))" for e e0 err out
    using that
    by (simp add: terminal_def consistent_def get_prop_update get_prop_JSON_stringify_update)
  have later: "fst (case p of (result, calls) \<Rightarrow> (result, calls @ more)) = fst p"
    for p :: "(run_error + jsobject) \<times> docker_call list" and more
    by (cases p) simp
  show ?thesis
    using assms runCode_catch_terminal completed
    by (auto simp: runCode_body_def Let_def later split: option.splits outcome.splits prod.splits)
qed

lemma executeCode_cases:
  "(\<exists>err. executeCode s now executionId r = (Inl (ValidationError err), s, None))
   \<or> (\<exists>response language code input timeout.
        executeCode s now executionId r =
          (Inr response,
           storeExecution s executionId (new_execution executionId language code input timeout now),
           Some (executionId, language, code, input, timeout)))"
  by (cases "executionRequestSchema_validate
               (r\<lparr>req_timeout := normalize_timeout (req_timeout r)\<rparr>)")
     (auto simp: executeCode_def)

lemma invariant_initial: "invariant (initial client up)"
  by (simp add: invariant_def initial_def)

lemma invariant_Submit:
  assumes "invariant sv"
  shows "invariant (apply_event sv (Submit now executionId r))"
proof (cases "fresh sv executionId")
  case False
  with assms show ?thesis by simp
next
  case True
  from executeCode_cases [of "the_store sv" now executionId r] show ?thesis
  proof (elim disjE exE)
    fix err
    assume "executeCode (the_store sv) now executionId r = (Inl (ValidationError err), the_store sv, None)"
    with assms True show ?thesis by simp
  next
    fix response language code input timeout
    assume "executeCode (the_store sv) now executionId r =
          (Inr response,
           storeExecution (the_store sv) executionId
             (new_execution executionId language code input timeout now),
           Some (executionId, language, code, input, timeout))"
    with assms True show ?thesis
      by (auto simp: invariant_def fresh_def storeExecution_memory storeExecution_redis
          new_execution_pending split: if_splits)
  qed
qed

lemma invariant_RunBegin:
  assumes "invariant sv"
  shows "invariant (apply_event sv (RunBegin executionId))"
  using assms
  by (auto simp: invariant_def split: option.splits task.splits if_splits)

lemma invariant_RunEnd:
  assumes "invariant sv"
  shows "invariant (apply_event sv (RunEnd executionId docker utf8 now))"
proof (cases "tasks sv executionId")
  case None
  with assms show ?thesis by simp
next
  case (Some t)
  obtain language code input timeout h where t: "t = Task language code input timeout h"
    by (cases t)
  show ?thesis
  proof (cases h)
    case None
    with assms Some t show ?thesis by simp
  next
    case (Some pair)
    obtain execution shared where pair: "pair = (execution, shared)" by (cases pair)
    let ?result = "fst (runCode_body docker utf8 now execution language code input timeout)"
    have ev: "apply_event sv (RunEnd executionId docker utf8 now) =
        \<lparr>the_store = runCode_store (the_store sv) executionId shared ?result,
         tasks = (tasks sv)(executionId := None)\<rparr>"
      using \<open>tasks sv executionId = Some t\<close> t Some pair by simp
    show ?thesis
    proof (cases ?result)
      case (Inl err)
      with assms show ?thesis
        unfolding ev by (auto simp: invariant_def runCode_store_Inl)
    next
      case (Inr e')
      from runCode_body_terminal [OF Inr] assms show ?thesis
        unfolding ev Inr
        by (auto simp: invariant_def runCode_store_memory runCode_store_redis split: if_splits)
    qed
  qed
qed

lemma invariant_step:
  assumes "invariant sv"
  shows "invariant (apply_event sv ev)"
proof (cases ev)
  case (Submit now executionId r)
  with assms show ?thesis by (simp only: invariant_Submit)
next
  case (RunBegin executionId)
  with assms show ?thesis by (simp only: invariant_RunBegin)
next
  case (RunEnd executionId docker utf8 now)
  with assms show ?thesis by (simp only: invariant_RunEnd)
next
  case (RedisHealth up)
  with assms show ?thesis by (simp add: invariant_def)
next
  case RedisDropped
  with assms show ?thesis by (simp add: invariant_def)
qed

lemma invariant_run:
  assumes "invariant sv"
  shows "invariant (foldl apply_event sv events)"
  using assms by (induction events arbitrary: sv) (simp_all add: invariant_step)

lemma runCode_store_memory_other:
  "k \<noteq> executionId \<Longrightarrow>
   memoryStorage (runCode_store s executionId shared result) k = memoryStorage s k"
  by (cases result) (simp_all add: runCode_store_memory runCode_store_Inl)

lemma runCode_store_redis_other:
  "k \<noteq> ''execution:'' @ executionId \<Longrightarrow>
   redis_db (runCode_store s executionId shared result) k = redis_db s k"
  by (cases result) (simp_all add: runCode_store_redis runCode_store_Inl)

lemma terminal_kept_memory:
  assumes "invariant sv" and "memoryStorage (the_store sv) k = Some r" and "terminal r"
  shows "memoryStorage (the_store (apply_event sv ev)) k = Some r"
proof (cases ev)
  case (Submit now executionId request)
  from executeCode_cases [of "the_store sv" now executionId request] assms Submit show ?thesis
    by (auto simp: fresh_def storeExecution_memory)
next
  case (RunBegin executionId)
  with assms show ?thesis by (auto split: option.splits task.splits)
next
  case (RunEnd executionId docker utf8 now)
  show ?thesis
  proof (cases "tasks sv executionId = None")
    case True
    with assms RunEnd show ?thesis by simp
  next
    case False
    with assms have "k \<noteq> executionId" by (auto simp: invariant_def)
    with assms RunEnd show ?thesis
      by (auto simp: runCode_store_memory_other split: option.splits task.splits)
  qed
next
  case (RedisHealth up)
  with assms show ?thesis by simp
next
  case RedisDropped
  with assms show ?thesis by simp
qed

lemma terminal_kept_redis:
  assumes "invariant sv" and "redis_db (the_store sv) k = Some r" and "terminal r"
  shows "redis_db (the_store (apply_event sv ev)) k = Some r"
proof (cases ev)
  case (Submit now executionId request)
  from executeCode_cases [of "the_store sv" now executionId request] assms Submit show ?thesis
    by (auto simp: fresh_def storeExecution_redis)
next
  case (RunBegin executionId)
  with assms show ?thesis by (auto split: option.splits task.splits)
next
  case (RunEnd executionId docker utf8 now)
  show ?thesis
  proof (cases "tasks sv executionId = None")
    case True
    with assms RunEnd show ?thesis by simp
  next
    case False
    with assms have "k \<noteq> ''execution:'' @ executionId" by (auto simp: invariant_def)
    with assms RunEnd show ?thesis
      by (auto simp: runCode_store_redis_other split: option.splits task.splits)
  qed
next
  case (RedisHealth up)
  with assms show ?thesis by simp
next
  case RedisDropped
  with assms show ?thesis by simp
qed

text \<open>
  Claim C7. In every state that the service reaches from an empty store by submissions,
  task steps and changes of the Redis connection, each record that the memory map or
  Redis holds has an end time other than \<^verbatim>\<open>null\<close> exactly if its status is
  \<^verbatim>\<open>completed\<close> or \<^verbatim>\<open>failed\<close>. A record that a backend holds with a terminal status is
  held unchanged after any further event: a record is written when it is created and once
  more by its own task, which is then over, so status, endTime, output and error stay as
  the terminal write left them. Identifiers are unique, as \<^verbatim>\<open>uuidv4\<close> makes them. What
  deletes records, the expiry in Redis and a restart of the process, is not an event of
  the model.
\<close>

theorem terminal_status_written_once:
  assumes "sv = foldl apply_event (initial client up) events"
  shows "(\<forall>r\<in>stored sv. get_prop r ''endTime'' \<noteq> JNull \<longleftrightarrow> terminal r)
         \<and> (\<forall>executionId r.
               memoryStorage (the_store sv) executionId = Some r \<and> terminal r \<longrightarrow>
               memoryStorage (the_store (apply_event sv ev)) executionId = Some r)
         \<and> (\<forall>key r.
               redis_db (the_store sv) key = Some r \<and> terminal r \<longrightarrow>
               redis_db (the_store (apply_event sv ev)) key = Some r)"
proof -
  have inv: "invariant sv"
    unfolding assms by (rule invariant_run [OF invariant_initial])
  then have "\<forall>r\<in>stored sv. consistent r"
    by (auto simp: invariant_def stored_def ran_def)
  then have "\<forall>r\<in>stored sv. get_prop r ''endTime'' \<noteq> JNull \<longleftrightarrow> terminal r"
    by (simp add: consistent_def)
  then show ?thesis
    using terminal_kept_memory [OF inv] terminal_kept_redis [OF inv] by blast
qed

theorem terminal_status_written_once_witness:
  "memoryStorage (the_store (foldl apply_event (initial False False)
      [Submit ''T0'' ''e1''
         \<lparr>req_language = Some ''python'', req_code = Some ''print(1)'', req_input = None,
          req_timeout = Some 10\<rparr>,
       RunBegin ''e1'',
       RunEnd ''e1''
         (\<lambda>opts. Returns \<lparr>start_outcome = Returns (), wait_outcome = Returns (),
            logs_outcome = Returns [1, 0, 0, 0, 0, 0, 0, 2, 104, 105],
            inspect_outcome = Returns 0, remove_outcome = Returns (), timer_first = False\<rparr>)
         ascii ''T1''])) ''e1''
   = Some [(''id'', JString ''e1''), (''status'', JString ''completed''),
           (''language'', JString ''python''), (''code'', JString ''print(1)''),
           (''input'', JUndefined), (''timeout'', JNumber 10), (''startTime'', JString ''T0''),
           (''endTime'', JString ''T1''), (''output'', JString ''hi''), (''error'', JString '''')]
   \<and> memoryStorage (the_store (apply_event (foldl apply_event (initial False False)
      [Submit ''T0'' ''e1''
         \<lparr>req_language = Some ''python'', req_code = Some ''print(1)'', req_input = None,
          req_timeout = Some 10\<rparr>,
       RunBegin ''e1'',
       RunEnd ''e1''
         (\<lambda>opts. Returns \<lparr>start_outcome = Returns (), wait_outcome = Returns (),
            logs_outcome = Returns [1, 0, 0, 0, 0, 0, 0, 2, 104, 105],
            inspect_outcome = Returns 0, remove_outcome = Returns (), timer_first = False\<rparr>)
         ascii ''T1''])
      (RunEnd ''e1'' (\<lambda>opts. Throws ''no engine'') ascii ''T2''))) ''e1''
   = Some [(''id'', JString ''e1''), (''status'', JString ''completed''),
           (''language'', JString ''python''), (''code'', JString ''print(1)''),
           (''input'', JUndefined), (''timeout'', JNumber 10), (''startTime'', JString ''T0''),
           (''endTime'', JString ''T1''), (''output'', JString ''hi''), (''error'', JString '''')]"
proof -
  let ?r = "\<lparr>req_language = Some ''python'', req_code = Some ''print(1)'', req_input = None,
          req_timeout = Some 10\<rparr>"
  let ?c = "\<lparr>start_outcome = Returns (), wait_outcome = Returns (),
            logs_outcome = Returns [1, 0, 0, 0, 0, 0, 0, 2, 104, 105],
            inspect_outcome = Returns 0, remove_outcome = Returns (), timer_first = False\<rparr>"
  let ?events = "[Submit ''T0'' ''e1'' ?r, RunBegin ''e1'', RunEnd ''e1'' (\<lambda>opts. Returns ?c) ascii ''T1'']"
  let ?e0 = "new_execution ''e1'' ''python'' ''print(1)'' None 10 ''T0''"
  let ?rec = "[(''id'', JString ''e1''), (''status'', JString ''completed''),
           (''language'', JString ''python''), (''code'', JString ''print(1)''),
           (''input'', JUndefined), (''timeout'', JNumber 10), (''startTime'', JString ''T0''),
           (''endTime'', JString ''T1''), (''output'', JString ''hi''), (''error'', JString '''')]"
  let ?sv = "foldl apply_event (initial False False) ?events"
  have ok: "executionRequestSchema_validate (?r\<lparr>req_timeout := normalize_timeout (req_timeout ?r)\<rparr>)
            = Inr (''python'', ''print(1)'', None, 10)"
    by (simp add: executionRequestSchema_validate_def normalize_timeout_def MAX_SAFE_INTEGER_def)
  have "LANGUAGE_CONFIG ''python'' \<noteq> None" by (simp add: LANGUAGE_CONFIG_def)
  then obtain config where config: "LANGUAGE_CONFIG ''python'' = Some config" by blast
  have parsed: "parseDockerLogs ascii [1, 0, 0, 0, 0, 0, 0, 2, 104, 105]
                = \<lparr>stdout = ''hi'', stderr = ''''\<rparr>"
    by (simp add: parseDockerLogs_def parse_frames.simps readUInt8_def readUInt32BE_def
        buffer_slice_def Let_def ascii_def trim_def isWhiteSpace_def
        char_of_def bit_iff_odd drop_bit_eq_div)
  have body: "fst (runCode_body (\<lambda>opts. Returns ?c) ascii ''T1'' (Some ?e0) ''python'' ''print(1)'' None 10)
    = Inr ?rec"
    using runCode_body_completed [of "''python''" config "\<lambda>opts. Returns ?c" "''print(1)''" ?c
        "()" "()" "()" ascii "''T1''" ?e0 None 10] config
    by (simp add: getContainerOutput_def parsed new_execution_def)
  have stored: "memoryStorage (the_store ?sv) ''e1'' = Some ?rec"
    by (simp add: initial_def fresh_def executeCode_accepts [OF ok] storeExecution_def
        getExecution_def body runCode_store_def)
  have fin: "terminal ?rec"
    by (simp add: terminal_def get_prop_def)
  show ?thesis
    using terminal_status_written_once [of ?sv False False ?events
        "RunEnd ''e1'' (\<lambda>opts. Throws ''no engine'') ascii ''T2''"] stored fin
    by simp
qed

end
